theory Spec2Isabelle
  imports Complex_Main "HOL-Library.Char_ord" "HOL-Library.List_Lexorder"
begin

section \<open>Broker orders: sysexecution/orders/broker\_orders.py\<close>

subsection \<open>Python values, errors and result markers\<close>

text \<open>
  The values that travel through the constructor's arguments, the persisted dictionary
  and the \<open>order_info\<close> bag. \<open>PNamed\<close> is a named sentinel object, \<open>PListClass\<close> is
  the builtin class \<^verbatim>\<open>list\<close> itself (not a list), \<open>PDatetime\<close> a timestamp and
  \<open>PBrokerOrderType x\<close> the instance that \<^verbatim>\<open>brokerOrderType(x)\<close> builds.
\<close>

datatype pyval =
    PNone
  | PBool bool
  | PInt int
  | PFloat real
  | PStr string
  | PList "pyval list"
  | PNamed string
  | PDatetime int
  | PListClass
  | PBrokerOrderType pyval

text \<open>
  The two exceptions the module raises itself are plain \<^verbatim>\<open>Exception\<close>s told apart by
  their message: \<open>ArgumentShapeError\<close> is the one of \<^verbatim>\<open>split_broker_order_args\<close>,
  \<open>ParseAmbiguityError\<close> is \<^verbatim>\<open>Exception("Not sure how to parse order")\<close>. The others
  are the interpreter's: a missing dictionary key, an index out of range, a value that
  cannot be iterated. \<open>CollaboratorError\<close> is any failure inside an external collaborator.
\<close>

datatype error =
    ArgumentShapeError
  | ParseAmbiguityError
  | KeyError string
  | IndexError
  | TypeError
  | CollaboratorError string

text \<open>The markers \<^verbatim>\<open>success\<close> and \<^verbatim>\<open>fill_exceeds_trade\<close> of syscore.objects.\<close>

datatype marker = success | fill_exceeds_trade

definition ebind :: "'e + 'a \<Rightarrow> ('a \<Rightarrow> 'e + 'b) \<Rightarrow> 'e + 'b" where
  "ebind r f = (case r of Inl e \<Rightarrow> Inl e | Inr v \<Rightarrow> f v)"

text \<open>\<^verbatim>\<open>d[k]\<close> on a dictionary: the value, or KeyError.\<close>

definition getitem :: "(string \<rightharpoonup> pyval) \<Rightarrow> string \<Rightarrow> error + pyval" where
  "getitem d k = (case d k of None \<Rightarrow> Inl (KeyError k) | Some v \<Rightarrow> Inr v)"

text \<open>\<^verbatim>\<open>d.pop(k)\<close>: the value and the dictionary without the key, or KeyError.\<close>

definition pop :: "(string \<rightharpoonup> pyval) \<Rightarrow> string \<Rightarrow> error + (pyval \<times> (string \<rightharpoonup> pyval))" where
  "pop d k = (case d k of None \<Rightarrow> Inl (KeyError k) | Some v \<Rightarrow> Inr (v, d(k := None)))"

text \<open>\<^verbatim>\<open>d.pop(k, default)\<close>: never raises.\<close>

definition pop_default :: "(string \<rightharpoonup> pyval) \<Rightarrow> string \<Rightarrow> pyval \<Rightarrow> pyval \<times> (string \<rightharpoonup> pyval)" where
  "pop_default d k dflt = (case d k of None \<Rightarrow> (dflt, d) | Some v \<Rightarrow> (v, d(k := None)))"

text \<open>A keyword argument with its default value.\<close>

definition kwarg :: "(string \<rightharpoonup> pyval) \<Rightarrow> string \<Rightarrow> pyval \<Rightarrow> pyval" where
  "kwarg kw k dflt = (case kw k of None \<Rightarrow> dflt | Some v \<Rightarrow> v)"

text \<open>\<^verbatim>\<open>type(x) is float\<close>.\<close>

fun is_float :: "pyval \<Rightarrow> bool" where
  "is_float (PFloat x) = True"
| "is_float v = False"

text \<open>
  The builtin \<^verbatim>\<open>list(x)\<close>: a list gives its elements, a string its characters, and a
  value that is not iterable raises TypeError.
\<close>

fun py_list :: "pyval \<Rightarrow> error + pyval list" where
  "py_list (PList xs) = Inr xs"
| "py_list (PStr s) = Inr (map (\<lambda>c. PStr [c]) s)"
| "py_list v = Inl TypeError"

subsection \<open>External collaborators\<close>

text \<open>
  Modelled from the spec: the sentinels \<^verbatim>\<open>no_order_id\<close>, \<^verbatim>\<open>no_parent\<close> and
  \<^verbatim>\<open>no_children\<close> are imported from base\_orders, which is not part of the shown source;
  the spec calls them the defined sentinel values "no id", "no parent", "no children".
\<close>

definition no_order_id :: pyval where
  "no_order_id = PNamed ''no id''"

definition no_parent :: pyval where
  "no_parent = PNamed ''no parent''"

definition no_children :: pyval where
  "no_children = PNamed ''no children''"

text \<open>
  Modelled from the spec: \<^verbatim>\<open>none_to_object\<close> of syscore.genutils is not part of the shown
  source; it substitutes the given sentinel for \<^verbatim>\<open>None\<close> and returns anything else as it is.
\<close>

definition none_to_object :: "pyval \<Rightarrow> pyval \<Rightarrow> pyval" where
  "none_to_object x object = (if x = PNone then object else x)"

text \<open>
  \<^verbatim>\<open>brokerOrderType.allowed_types\<close>, and the three module-level type tags.
  Modelled from the spec: the base class \<^verbatim>\<open>orderType\<close> is not part of the shown source and
  the spec only says that the tag is reconstructed from a stored string; the instance
  records the constructor's argument and no validation against \<open>allowed_types\<close> is modelled.
\<close>

definition allowed_types :: "string list" where
  "allowed_types = [''market'', ''limit'', ''balance_trade'']"

definition brokerOrderType :: "pyval \<Rightarrow> pyval" where
  "brokerOrderType x = PBrokerOrderType x"

definition market_order_type :: pyval where
  "market_order_type = brokerOrderType (PStr ''market'')"

definition limit_order_type :: pyval where
  "limit_order_type = brokerOrderType (PStr ''limit'')"

definition balance_order_type :: pyval where
  "balance_order_type = brokerOrderType (PStr ''balance_trade'')"

text \<open>
  Modelled from the spec: \<^verbatim>\<open>tradeQuantity\<close> (sysexecution.trade\_qty) is not part of the
  shown source; it is the ordered sequence of per-leg signed quantities.
\<close>

type_synonym tradeQuantity = "int list"

text \<open>
  Modelled from the spec: \<^verbatim>\<open>futuresContractStrategy\<close> (the tradeable-object key) is not
  part of the shown source; its identity is a strategy, an instrument and one or more
  contract dates, one per leg.
\<close>

record futuresContractStrategy =
  strategy_name :: string
  instrument_code :: string
  legs :: "string list"

text \<open>
  Modelled from the spec: \<^verbatim>\<open>sort_idx_for_contracts\<close> derives the sort permutation from the
  per-leg contract-date ordering: the leg indices, in ascending order of their contract
  dates (a stable sort of the indices by date).
\<close>

definition sort_idx_for_contracts :: "futuresContractStrategy \<Rightarrow> nat list" where
  "sort_idx_for_contracts tobj = sort_key (\<lambda>k. legs tobj ! k) [0..<length (legs tobj)]"

text \<open>
  Modelled from the spec: \<^verbatim>\<open>sort_with_idx\<close> of the trade quantity and
  \<^verbatim>\<open>sort_contracts_with_idx\<close> of the tradeable object apply the given permutation:
  position \<open>i\<close> of the result is position \<open>idx[i]\<close> of the sequence. Reading a position
  that the sequence does not have raises IndexError, as Python's indexing does.
\<close>

definition sort_with_idx :: "'a list \<Rightarrow> nat list \<Rightarrow> error + 'a list" where
  "sort_with_idx xs idx_list =
     (if list_all (\<lambda>idx. idx < length xs) idx_list
      then Inr (map (\<lambda>idx. xs ! idx) idx_list)
      else Inl IndexError)"

definition sort_contracts_with_idx ::
  "futuresContractStrategy \<Rightarrow> nat list \<Rightarrow> error + futuresContractStrategy" where
  "sort_contracts_with_idx tobj idx_list =
     ebind (sort_with_idx (legs tobj) idx_list) (\<lambda>sorted_legs. Inr (tobj\<lparr>legs := sorted_legs\<rparr>))"

text \<open>
  Modelled from the spec: \<^verbatim>\<open>fill_less_than_or_equal_to_desired_trade\<close> of the trade
  quantity holds when the fill magnitude is at most the trade magnitude on every leg.
\<close>

definition fill_less_than_or_equal_to_desired_trade :: "tradeQuantity \<Rightarrow> tradeQuantity \<Rightarrow> bool" where
  "fill_less_than_or_equal_to_desired_trade self proposed_fill =
     list_all (\<lambda>(t, f). \<bar>f\<bar> \<le> \<bar>t\<bar>) (zip self proposed_fill)"

text \<open>
  The surroundings of the module that the spec leaves open are parameters of the model:
  the key-string parser and the constructor of the tradeable object, the trade/fill/price
  normalizer of the base order, and the reducer of a per-leg price list to one price,
  each of which may fail; and the content, at the time of a call, of the one list object
  that the signature of \<^verbatim>\<open>brokerOrder.__init__\<close> creates as the default of
  \<^verbatim>\<open>leg_filled_price\<close> (\<^verbatim>\<open>leg_filled_price: list = []\<close>). That object is shared by
  all calls: it is empty when the module is loaded, and a caller that changes it in
  place changes the default of every later call.
\<close>

record collaborators =
  from_key :: "pyval \<Rightarrow> error + futuresContractStrategy"
  new_futuresContractStrategy :: "pyval \<Rightarrow> pyval \<Rightarrow> pyval \<Rightarrow> error + futuresContractStrategy"
  resolve_inputs_to_order :: "pyval \<Rightarrow> pyval \<Rightarrow> pyval \<Rightarrow> error + (tradeQuantity \<times> tradeQuantity \<times> pyval)"
  resolve_multi_leg_price_to_single_price :: "tradeQuantity \<Rightarrow> pyval \<Rightarrow> error + pyval"
  default_leg_filled_price :: "pyval list"

text \<open>
  Modelled from the spec: \<^verbatim>\<open>futuresContractStrategy.from_key\<close> and the constructor
  \<^verbatim>\<open>futuresContractStrategy(strategy, instrument, contract_id)\<close> are not part of the
  shown source. The docstring of \<^verbatim>\<open>brokerOrder.__init__\<close> gives the key as
  \<^verbatim>\<open>'strategy/instrument/contract_id'\<close>, the contract dates of a spread separated by
  \<^verbatim>\<open>'_'\<close> inside it, and the spec has the contract id be a single date string or a list
  of date strings, one per leg. \<open>split_on\<close> is \<^verbatim>\<open>str.split(sep)\<close>, \<open>join_with\<close> is
  \<^verbatim>\<open>sep.join(...)\<close>, and \<open>composite_key\<close> writes the key of an order description.
\<close>

fun split_on :: "char \<Rightarrow> string \<Rightarrow> string list" where
  "split_on sep [] = [[]]"
| "split_on sep (c # cs) =
     (if c = sep then [] # split_on sep cs
      else (case split_on sep cs of [] \<Rightarrow> [[c]] | w # ws \<Rightarrow> (c # w) # ws))"

fun join_with :: "char \<Rightarrow> string list \<Rightarrow> string" where
  "join_with sep [] = []"
| "join_with sep [w] = w"
| "join_with sep (w # v # ws) = w @ sep # join_with sep (v # ws)"

definition composite_key :: "string \<Rightarrow> string \<Rightarrow> string list \<Rightarrow> string" where
  "composite_key strategy instrument dates =
     strategy @ CHR ''/'' # instrument @ CHR ''/'' # join_with CHR ''_'' dates"

fun str_of :: "pyval \<Rightarrow> error + string" where
  "str_of (PStr s) = Inr s"
| "str_of v = Inl (CollaboratorError ''not a string'')"

fun strs_of :: "pyval list \<Rightarrow> error + string list" where
  "strs_of [] = Inr []"
| "strs_of (v # vs) = ebind (str_of v) (\<lambda>s. ebind (strs_of vs) (\<lambda>ss. Inr (s # ss)))"

fun futuresContractStrategy_from_key :: "pyval \<Rightarrow> error + futuresContractStrategy" where
  "futuresContractStrategy_from_key (PStr k) =
     (case split_on CHR ''/'' k of
        [s, i, c] \<Rightarrow> Inr \<lparr>strategy_name = s, instrument_code = i, legs = split_on CHR ''_'' c\<rparr>
      | _ \<Rightarrow> Inl (CollaboratorError ''malformed key''))"
| "futuresContractStrategy_from_key v = Inl (CollaboratorError ''malformed key'')"

fun futuresContractStrategy_init ::
  "pyval \<Rightarrow> pyval \<Rightarrow> pyval \<Rightarrow> error + futuresContractStrategy" where
  "futuresContractStrategy_init (PStr s) (PStr i) (PStr c) =
     Inr \<lparr>strategy_name = s, instrument_code = i, legs = [c]\<rparr>"
| "futuresContractStrategy_init (PStr s) (PStr i) (PList cs) =
     ebind (strs_of cs) (\<lambda>ds. Inr \<lparr>strategy_name = s, instrument_code = i, legs = ds\<rparr>)"
| "futuresContractStrategy_init a b c = Inl (CollaboratorError ''malformed contract'')"

subsection \<open>The key-argument bundle and its resolution\<close>

text \<open>
  The dataclass \<^verbatim>\<open>brokerOrderKeyArguments\<close>. Its trade and fill are raw values when the
  bundle is built and trade quantities once resolved, hence the type parameter.
\<close>

record 'q brokerOrderKeyArguments =
  ka_tradeable_object :: futuresContractStrategy
  ka_trade :: 'q
  ka_fill :: 'q
  ka_filled_price :: pyval
  ka_leg_filled_price :: pyval
  ka_mid_price :: pyval
  ka_side_price :: pyval
  ka_offside_price :: pyval

definition split_broker_order_args ::
  "collaborators \<Rightarrow> pyval list \<Rightarrow> pyval \<Rightarrow> pyval \<Rightarrow> pyval \<Rightarrow> pyval \<Rightarrow> pyval \<Rightarrow> pyval
     \<Rightarrow> error + pyval brokerOrderKeyArguments" where
  "split_broker_order_args env args fill_arg filled_price_arg leg_filled_price_arg
       mid_price_arg side_price_arg offside_price_arg =
     (if length args = 2 then
        ebind (from_key env (args ! 0)) (\<lambda>tobj.
          Inr \<lparr>ka_tradeable_object = tobj, ka_trade = args ! 1, ka_fill = fill_arg,
               ka_filled_price = filled_price_arg, ka_leg_filled_price = leg_filled_price_arg,
               ka_mid_price = mid_price_arg, ka_side_price = side_price_arg,
               ka_offside_price = offside_price_arg\<rparr>)
      else if length args = 4 then
        ebind (new_futuresContractStrategy env (args ! 0) (args ! 1) (args ! 2)) (\<lambda>tobj.
          Inr \<lparr>ka_tradeable_object = tobj, ka_trade = args ! 3, ka_fill = fill_arg,
               ka_filled_price = filled_price_arg, ka_leg_filled_price = leg_filled_price_arg,
               ka_mid_price = mid_price_arg, ka_side_price = side_price_arg,
               ka_offside_price = offside_price_arg\<rparr>)
      else Inl ArgumentShapeError)"

definition calculate_prices_with_possible_legs ::
  "collaborators \<Rightarrow> tradeQuantity \<Rightarrow> pyval \<Rightarrow> pyval \<Rightarrow> pyval \<Rightarrow> pyval \<Rightarrow> pyval
     \<Rightarrow> error + (pyval \<times> pyval \<times> pyval \<times> pyval)" where
  "calculate_prices_with_possible_legs env trade_arg leg_filled_price_arg mid_price_arg
       side_price_arg offside_price_arg original_filled_price =
     ebind
       (if is_float original_filled_price then Inr leg_filled_price_arg
        else if original_filled_price = PNone then Inr leg_filled_price_arg
        else if leg_filled_price_arg = PList [] then
          ebind (py_list original_filled_price) (\<lambda>xs. Inr (PList xs))
        else Inl ParseAmbiguityError)
       (\<lambda>leg_filled_price'.
          ebind (resolve_multi_leg_price_to_single_price env trade_arg mid_price_arg) (\<lambda>mid_price'.
          ebind (resolve_multi_leg_price_to_single_price env trade_arg side_price_arg) (\<lambda>side_price'.
          ebind (resolve_multi_leg_price_to_single_price env trade_arg offside_price_arg) (\<lambda>offside_price'.
            Inr (leg_filled_price', mid_price', side_price', offside_price')))))"

definition resolve_inputs_to_order_with_key_arguments ::
  "collaborators \<Rightarrow> pyval brokerOrderKeyArguments \<Rightarrow> error + tradeQuantity brokerOrderKeyArguments" where
  "resolve_inputs_to_order_with_key_arguments env self =
     (let original_filled_price = ka_filled_price self in
      ebind (resolve_inputs_to_order env (ka_trade self) (ka_fill self) (ka_filled_price self))
        (\<lambda>(resolved_trade, resolved_fill, resolved_filled_price).
      ebind (calculate_prices_with_possible_legs env resolved_trade (ka_leg_filled_price self)
               (ka_mid_price self) (ka_side_price self) (ka_offside_price self)
               original_filled_price)
        (\<lambda>(leg_filled_price', mid_price', side_price', offside_price').
          Inr \<lparr>ka_tradeable_object = ka_tradeable_object self, ka_trade = resolved_trade,
               ka_fill = resolved_fill, ka_filled_price = resolved_filled_price,
               ka_leg_filled_price = leg_filled_price', ka_mid_price = mid_price',
               ka_side_price = side_price', ka_offside_price = offside_price'\<rparr>)))"

definition sort_inputs_by_contract_date_order ::
  "tradeQuantity brokerOrderKeyArguments \<Rightarrow> error + tradeQuantity brokerOrderKeyArguments" where
  "sort_inputs_by_contract_date_order self =
     (let sort_order = sort_idx_for_contracts (ka_tradeable_object self) in
      ebind (sort_with_idx (ka_trade self) sort_order) (\<lambda>sorted_trade.
      ebind (sort_with_idx (ka_fill self) sort_order) (\<lambda>sorted_fill.
      ebind (sort_contracts_with_idx (ka_tradeable_object self) sort_order) (\<lambda>sorted_object.
        Inr (self\<lparr>ka_trade := sorted_trade, ka_fill := sorted_fill,
                  ka_tradeable_object := sorted_object\<rparr>)))))"

definition from_broker_order_args_to_resolved_args ::
  "collaborators \<Rightarrow> pyval list \<Rightarrow> pyval \<Rightarrow> pyval \<Rightarrow> pyval \<Rightarrow> pyval \<Rightarrow> pyval \<Rightarrow> pyval
     \<Rightarrow> error + tradeQuantity brokerOrderKeyArguments" where
  "from_broker_order_args_to_resolved_args env args fill_arg filled_price_arg
       leg_filled_price_arg mid_price_arg side_price_arg offside_price_arg =
     ebind (split_broker_order_args env args fill_arg filled_price_arg leg_filled_price_arg
              mid_price_arg side_price_arg offside_price_arg) (\<lambda>key_arguments.
     ebind (resolve_inputs_to_order_with_key_arguments env key_arguments) (\<lambda>resolved.
       sort_inputs_by_contract_date_order resolved))"

subsection \<open>The order entity\<close>

text \<open>
  Modelled from the spec: the base class \<^verbatim>\<open>Order\<close> is not part of the shown source; its
  constructor keeps the canonical fields it is given and the \<open>order_info\<close> bag, and its
  \<^verbatim>\<open>fill_order\<close> copies the fill quantities, the filled price and the fill timestamp
  into the order.
\<close>

record brokerOrder =
  tradeable_object :: futuresContractStrategy
  trade :: tradeQuantity
  fill :: tradeQuantity
  filled_price :: pyval
  fill_datetime :: pyval
  locked :: pyval
  order_id :: pyval
  parent :: pyval
  children :: pyval
  active :: pyval
  order_type :: pyval
  order_info :: "string \<rightharpoonup> pyval"

definition fill_order :: "brokerOrder \<Rightarrow> tradeQuantity \<Rightarrow> pyval \<Rightarrow> pyval \<Rightarrow> brokerOrder" where
  "fill_order self fill_qty filled_price_arg fill_datetime_arg =
     self\<lparr>fill := fill_qty, filled_price := filled_price_arg, fill_datetime := fill_datetime_arg\<rparr>"

text \<open>
  The body of \<^verbatim>\<open>brokerOrder.__init__\<close>, on the arguments once the interpreter has bound
  them: \<open>args\<close> is \<^verbatim>\<open>*args\<close> and \<open>kw\<close> holds the keyword arguments. A keyword that
  the signature does not name lands in \<^verbatim>\<open>**kwargs_ignored\<close> and is never read. The
  defaults are the ones the signature writes; the empty list is the content of the default
  of \<^verbatim>\<open>leg_filled_price\<close> as the signature creates it. What the interpreter does before
  the body runs is \<open>brokerOrder_new\<close> below.
\<close>

definition brokerOrder_init ::
  "collaborators \<Rightarrow> pyval list \<Rightarrow> (string \<rightharpoonup> pyval) \<Rightarrow> error + brokerOrder" where
  "brokerOrder_init env args kw =
     ebind (from_broker_order_args_to_resolved_args env args
              (kwarg kw ''fill'' PNone)
              (kwarg kw ''filled_price'' PNone)
              (kwarg kw ''leg_filled_price'' (PList []))
              (kwarg kw ''mid_price'' PNone)
              (kwarg kw ''side_price'' PNone)
              (kwarg kw ''offside_price'' PNone)) (\<lambda>key_arguments.
       let resolved_trade = ka_trade key_arguments;
           calendar_spread_order_flag = (if length resolved_trade = 1 then False else True)
       in Inr \<lparr>tradeable_object = ka_tradeable_object key_arguments,
               trade = resolved_trade,
               fill = ka_fill key_arguments,
               filled_price = ka_filled_price key_arguments,
               fill_datetime = kwarg kw ''fill_datetime'' PNone,
               locked = kwarg kw ''locked'' (PBool False),
               order_id = kwarg kw ''order_id'' no_order_id,
               parent = kwarg kw ''parent'' no_parent,
               children = kwarg kw ''children'' no_children,
               active = kwarg kw ''active'' (PBool True),
               order_type = kwarg kw ''order_type'' (brokerOrderType (PStr ''market'')),
               order_info = map_of
                 [(''algo_used'', kwarg kw ''algo_used'' (PStr '''')),
                  (''submit_datetime'', kwarg kw ''submit_datetime'' PNone),
                  (''limit_price'', kwarg kw ''limit_price'' PNone),
                  (''manual_fill'', kwarg kw ''manual_fill'' (PBool False)),
                  (''calendar_spread_order'', PBool calendar_spread_order_flag),
                  (''side_price'', ka_side_price key_arguments),
                  (''mid_price'', ka_mid_price key_arguments),
                  (''offside_price'', ka_offside_price key_arguments),
                  (''algo_comment'', kwarg kw ''algo_comment'' (PStr '''')),
                  (''broker'', kwarg kw ''broker'' (PStr '''')),
                  (''broker_account'', kwarg kw ''broker_account'' (PStr '''')),
                  (''broker_permid'', kwarg kw ''broker_permid'' (PStr '''')),
                  (''broker_tempid'', kwarg kw ''broker_tempid'' (PStr '''')),
                  (''broker_clientid'', kwarg kw ''broker_clientid'' (PStr '''')),
                  (''commission'', kwarg kw ''commission'' (PFloat 0.0)),
                  (''roll_order'', kwarg kw ''roll_order'' (PBool False)),
                  (''leg_filled_price'', ka_leg_filled_price key_arguments)]\<rparr>)"

text \<open>
  The parameters that the signature of \<^verbatim>\<open>brokerOrder.__init__\<close> names: \<^verbatim>\<open>self\<close>, the
  one positional parameter before \<^verbatim>\<open>*args\<close>, and the 25 keyword-only parameters.
\<close>

definition keyword_names :: "string list" where
  "keyword_names =
     [''fill'', ''filled_price'', ''fill_datetime'', ''leg_filled_price'', ''locked'',
      ''order_id'', ''parent'', ''children'', ''active'', ''order_type'',
      ''algo_used'', ''algo_comment'', ''limit_price'', ''submit_datetime'',
      ''side_price'', ''mid_price'', ''offside_price'', ''roll_order'',
      ''broker'', ''broker_account'', ''broker_clientid'', ''broker_permid'',
      ''broker_tempid'', ''commission'', ''manual_fill'']"

definition parameter_names :: "string list" where
  "parameter_names = ''self'' # keyword_names"

text \<open>
  The call \<^verbatim>\<open>brokerOrder(*args, **kw)\<close> as the interpreter binds it. The instance
  already occupies \<^verbatim>\<open>self\<close>, so a keyword named \<^verbatim>\<open>self\<close> is a second value for that
  parameter and raises TypeError before the body runs. Any other keyword is bound to its
  parameter or collected in \<^verbatim>\<open>**kwargs_ignored\<close>. When \<^verbatim>\<open>leg_filled_price\<close> is not
  given it is bound to the shared default list, with the content that list has now.
\<close>

definition brokerOrder_new ::
  "collaborators \<Rightarrow> pyval list \<Rightarrow> (string \<rightharpoonup> pyval) \<Rightarrow> error + brokerOrder" where
  "brokerOrder_new env args kw =
     (if kw ''self'' \<noteq> None then Inl TypeError
      else brokerOrder_init env args
             (case kw ''leg_filled_price'' of
                None \<Rightarrow> kw(''leg_filled_price'' \<mapsto> PList (default_leg_filled_price env))
              | Some v \<Rightarrow> kw))"

text \<open>
  The accessors read the \<open>order_info\<close> bag; a key that is not there raises KeyError.
\<close>

definition limit_price :: "brokerOrder \<Rightarrow> error + pyval" where
  "limit_price self = getitem (order_info self) ''limit_price''"

definition algo_used :: "brokerOrder \<Rightarrow> error + pyval" where
  "algo_used self = getitem (order_info self) ''algo_used''"

definition calendar_spread_order :: "brokerOrder \<Rightarrow> error + pyval" where
  "calendar_spread_order self = getitem (order_info self) ''calendar_spread_order''"

definition submit_datetime :: "brokerOrder \<Rightarrow> error + pyval" where
  "submit_datetime self = getitem (order_info self) ''submit_datetime''"

definition side_price :: "brokerOrder \<Rightarrow> error + pyval" where
  "side_price self = getitem (order_info self) ''side_price''"

definition mid_price :: "brokerOrder \<Rightarrow> error + pyval" where
  "mid_price self = getitem (order_info self) ''mid_price''"

definition offside_price :: "brokerOrder \<Rightarrow> error + pyval" where
  "offside_price self = getitem (order_info self) ''offside_price''"

definition algo_comment :: "brokerOrder \<Rightarrow> error + pyval" where
  "algo_comment self = getitem (order_info self) ''algo_comment''"

definition broker_permid :: "brokerOrder \<Rightarrow> error + pyval" where
  "broker_permid self = getitem (order_info self) ''broker_permid''"

definition broker_clientid :: "brokerOrder \<Rightarrow> error + pyval" where
  "broker_clientid self = getitem (order_info self) ''broker_clientid''"

definition broker_tempid :: "brokerOrder \<Rightarrow> error + pyval" where
  "broker_tempid self = getitem (order_info self) ''broker_tempid''"

definition commission :: "brokerOrder \<Rightarrow> error + pyval" where
  "commission self = getitem (order_info self) ''commission''"

definition leg_filled_price :: "brokerOrder \<Rightarrow> error + pyval" where
  "leg_filled_price self = getitem (order_info self) ''leg_filled_price''"

text \<open>
  The setters store their argument under the property's key, all but the last one:
  the setter of \<^verbatim>\<open>leg_filled_price\<close> reads
  \<^verbatim>\<open>self.order_info["leg_filled_price"] = list\<close>
  and so stores the builtin class \<^verbatim>\<open>list\<close>, whatever it is given.
\<close>

definition limit_price_setter :: "brokerOrder \<Rightarrow> pyval \<Rightarrow> brokerOrder" where
  "limit_price_setter self v = self\<lparr>order_info := (order_info self)(''limit_price'' \<mapsto> v)\<rparr>"

definition submit_datetime_setter :: "brokerOrder \<Rightarrow> pyval \<Rightarrow> brokerOrder" where
  "submit_datetime_setter self v = self\<lparr>order_info := (order_info self)(''submit_datetime'' \<mapsto> v)\<rparr>"

definition manual_fill_setter :: "brokerOrder \<Rightarrow> pyval \<Rightarrow> brokerOrder" where
  "manual_fill_setter self v = self\<lparr>order_info := (order_info self)(''manual_fill'' \<mapsto> v)\<rparr>"

definition algo_comment_setter :: "brokerOrder \<Rightarrow> pyval \<Rightarrow> brokerOrder" where
  "algo_comment_setter self v = self\<lparr>order_info := (order_info self)(''algo_comment'' \<mapsto> v)\<rparr>"

definition broker_permid_setter :: "brokerOrder \<Rightarrow> pyval \<Rightarrow> brokerOrder" where
  "broker_permid_setter self v = self\<lparr>order_info := (order_info self)(''broker_permid'' \<mapsto> v)\<rparr>"

definition broker_clientid_setter :: "brokerOrder \<Rightarrow> pyval \<Rightarrow> brokerOrder" where
  "broker_clientid_setter self v = self\<lparr>order_info := (order_info self)(''broker_clientid'' \<mapsto> v)\<rparr>"

definition broker_tempid_setter :: "brokerOrder \<Rightarrow> pyval \<Rightarrow> brokerOrder" where
  "broker_tempid_setter self v = self\<lparr>order_info := (order_info self)(''broker_tempid'' \<mapsto> v)\<rparr>"

definition commission_setter :: "brokerOrder \<Rightarrow> pyval \<Rightarrow> brokerOrder" where
  "commission_setter self v = self\<lparr>order_info := (order_info self)(''commission'' \<mapsto> v)\<rparr>"

definition leg_filled_price_setter :: "brokerOrder \<Rightarrow> pyval \<Rightarrow> brokerOrder" where
  "leg_filled_price_setter self v =
     self\<lparr>order_info := (order_info self)(''leg_filled_price'' \<mapsto> PListClass)\<rparr>"

text \<open>
  \<^verbatim>\<open>add_execution_details_from_matched_broker_order\<close> returns its result together with
  the order as the call leaves it. A KeyError raised while reading the matched order
  leaves the assignments made before it in place.
\<close>

definition add_execution_details_from_matched_broker_order ::
  "brokerOrder \<Rightarrow> brokerOrder \<Rightarrow> (error + marker) \<times> brokerOrder" where
  "add_execution_details_from_matched_broker_order self matched_broker_order =
     (let fill_qty_okay =
            fill_less_than_or_equal_to_desired_trade (trade self) (fill matched_broker_order)
      in if \<not> fill_qty_okay then (Inr fill_exceeds_trade, self)
         else
           (let self1 = fill_order self (fill matched_broker_order)
                          (filled_price matched_broker_order) (fill_datetime matched_broker_order)
            in (case commission matched_broker_order of
                  Inl e \<Rightarrow> (Inl e, self1)
                | Inr comm \<Rightarrow>
            (let self2 = commission_setter self1 comm
             in (case broker_permid matched_broker_order of
                   Inl e \<Rightarrow> (Inl e, self2)
                 | Inr permid \<Rightarrow>
            (let self3 = broker_permid_setter self2 permid
             in (case algo_comment matched_broker_order of
                   Inl e \<Rightarrow> (Inl e, self3)
                 | Inr comment \<Rightarrow>
            (let self4 = algo_comment_setter self3 comment
             in (case leg_filled_price matched_broker_order of
                   Inl e \<Rightarrow> (Inl e, self4)
                 | Inr leg_prices \<Rightarrow>
                     (Inr success, leg_filled_price_setter self4 leg_prices))))))))))"

text \<open>
  The operations of the class that change an order after its construction: the nine
  property setters and the fill reconciliation. (The diagnostic helper of the subclass
  \<^verbatim>\<open>brokerOrderWithParentInformation\<close> sets four plain attributes on the object; it
  writes neither \<open>order_info\<close> nor the trade and is left out.)
\<close>

datatype mutation =
    Set_limit_price pyval
  | Set_submit_datetime pyval
  | Set_manual_fill pyval
  | Set_algo_comment pyval
  | Set_broker_permid pyval
  | Set_broker_clientid pyval
  | Set_broker_tempid pyval
  | Set_commission pyval
  | Set_leg_filled_price pyval
  | Add_execution_details brokerOrder

fun apply_mutation :: "mutation \<Rightarrow> brokerOrder \<Rightarrow> brokerOrder" where
  "apply_mutation (Set_limit_price v) self = limit_price_setter self v"
| "apply_mutation (Set_submit_datetime v) self = submit_datetime_setter self v"
| "apply_mutation (Set_manual_fill v) self = manual_fill_setter self v"
| "apply_mutation (Set_algo_comment v) self = algo_comment_setter self v"
| "apply_mutation (Set_broker_permid v) self = broker_permid_setter self v"
| "apply_mutation (Set_broker_clientid v) self = broker_clientid_setter self v"
| "apply_mutation (Set_broker_tempid v) self = broker_tempid_setter self v"
| "apply_mutation (Set_commission v) self = commission_setter self v"
| "apply_mutation (Set_leg_filled_price v) self = leg_filled_price_setter self v"
| "apply_mutation (Add_execution_details matched) self =
     snd (add_execution_details_from_matched_broker_order self matched)"

text \<open>
  \<^verbatim>\<open>brokerOrder.from_dict\<close>. The ten \<^verbatim>\<open>pop\<close>s without a default raise KeyError on a
  missing key, in the order of the source; what is left of the dictionary is passed on
  as keyword arguments beside the explicit ones, in a call of the constructor.
\<close>

definition from_dict :: "collaborators \<Rightarrow> (string \<rightharpoonup> pyval) \<Rightarrow> error + brokerOrder" where
  "from_dict env order_as_dict =
     ebind (pop order_as_dict ''trade'') (\<lambda>(trade_v, d1).
     ebind (pop d1 ''key'') (\<lambda>(key_v, d2).
     ebind (pop d2 ''fill'') (\<lambda>(fill_v, d3).
     ebind (pop d3 ''filled_price'') (\<lambda>(filled_price_v, d4).
     ebind (pop d4 ''fill_datetime'') (\<lambda>(fill_datetime_v, d5).
     ebind (pop d5 ''locked'') (\<lambda>(locked_v, d6).
     ebind (pop d6 ''order_id'') (\<lambda>(order_id_raw, d7).
     ebind (pop d7 ''parent'') (\<lambda>(parent_raw, d8).
     ebind (pop d8 ''children'') (\<lambda>(children_raw, d9).
     ebind (pop d9 ''active'') (\<lambda>(active_v, d10).
       let order_id_v = none_to_object order_id_raw no_order_id;
           parent_v = none_to_object parent_raw no_parent;
           children_v = none_to_object children_raw no_children;
           (order_type_raw, order_info_d) = pop_default d10 ''order_type'' PNone;
           order_type_v = brokerOrderType order_type_raw
       in brokerOrder_new env [key_v, trade_v]
            (order_info_d(''fill'' \<mapsto> fill_v, ''locked'' \<mapsto> locked_v,
               ''order_id'' \<mapsto> order_id_v, ''parent'' \<mapsto> parent_v,
               ''children'' \<mapsto> children_v, ''active'' \<mapsto> active_v,
               ''filled_price'' \<mapsto> filled_price_v, ''fill_datetime'' \<mapsto> fill_datetime_v,
               ''order_type'' \<mapsto> order_type_v))))))))))))"

subsection \<open>A concrete set of collaborators\<close>

text \<open>
  Modelled from the spec: the normalizer \<^verbatim>\<open>resolve_inputs_to_order\<close> and the reducer
  \<^verbatim>\<open>resolve_multi_leg_price_to_single_price\<close> of base\_orders are not part of the shown
  source. The spec has the normalizer coerce trade and fill to per-leg quantity sequences
  and the filled price to its canonical form, and the reducer pass a scalar price through
  unchanged and collapse a per-leg list to one representative price, weighting by leg
  sign for instance. The theorems hold for every choice of these two; the ones below
  serve to run the construction on concrete calls, together with the key parser and the
  constructor above and with the shared default list in its initial, empty state.
\<close>

fun ints_of :: "pyval list \<Rightarrow> error + int list" where
  "ints_of [] = Inr []"
| "ints_of (PInt n # vs) = ebind (ints_of vs) (\<lambda>ns. Inr (n # ns))"
| "ints_of (v # vs) = Inl (CollaboratorError ''not a quantity'')"

fun reals_of :: "pyval list \<Rightarrow> error + real list" where
  "reals_of [] = Inr []"
| "reals_of (PFloat x # vs) = ebind (reals_of vs) (\<lambda>xs. Inr (x # xs))"
| "reals_of (v # vs) = Inl (CollaboratorError ''not a price'')"

fun sample_quantity :: "pyval \<Rightarrow> error + tradeQuantity" where
  "sample_quantity (PInt n) = Inr [n]"
| "sample_quantity (PList vs) = ints_of vs"
| "sample_quantity v = Inl (CollaboratorError ''not a quantity'')"

definition sample_leg_sign :: "int \<Rightarrow> real" where
  "sample_leg_sign q = (if q < 0 then - 1 else if q = 0 then 0 else 1)"

fun sample_resolve_multi_leg_price_to_single_price :: "tradeQuantity \<Rightarrow> pyval \<Rightarrow> error + pyval" where
  "sample_resolve_multi_leg_price_to_single_price trade_list (PList [p]) = Inr p"
| "sample_resolve_multi_leg_price_to_single_price trade_list (PList ps) =
     ebind (reals_of ps) (\<lambda>xs.
       Inr (PFloat (sum_list (map (\<lambda>(q, x). sample_leg_sign q * x) (zip trade_list xs)))))"
| "sample_resolve_multi_leg_price_to_single_price trade_list price = Inr price"

definition sample_resolve_inputs_to_order ::
  "pyval \<Rightarrow> pyval \<Rightarrow> pyval \<Rightarrow> error + (tradeQuantity \<times> tradeQuantity \<times> pyval)" where
  "sample_resolve_inputs_to_order trade_arg fill_arg filled_price_arg =
     ebind (sample_quantity trade_arg) (\<lambda>resolved_trade.
     ebind (if fill_arg = PNone then Inr (map (\<lambda>q. 0) resolved_trade)
            else sample_quantity fill_arg) (\<lambda>resolved_fill.
     ebind (sample_resolve_multi_leg_price_to_single_price resolved_trade filled_price_arg)
       (\<lambda>resolved_filled_price. Inr (resolved_trade, resolved_fill, resolved_filled_price))))"

definition sample_collaborators :: collaborators where
  "sample_collaborators =
     \<lparr>from_key = futuresContractStrategy_from_key,
      new_futuresContractStrategy = futuresContractStrategy_init,
      resolve_inputs_to_order = sample_resolve_inputs_to_order,
      resolve_multi_leg_price_to_single_price = sample_resolve_multi_leg_price_to_single_price,
      default_leg_filled_price = []\<rparr>"

subsection \<open>A persisted order\<close>

text \<open>
  A dictionary as \<^verbatim>\<open>from_dict\<close> receives it, used to run the deserialization on a
  concrete input: an unfilled single-leg limit order with no id, no parent and no
  children assigned, which are stored as \<^verbatim>\<open>None\<close>.
\<close>

definition example_order_as_dict :: "string \<rightharpoonup> pyval" where
  "example_order_as_dict =
     [''key'' \<mapsto> PStr ''a strategy/an instrument/201003'',
      ''trade'' \<mapsto> PList [PInt 10],
      ''fill'' \<mapsto> PList [PInt 0],
      ''filled_price'' \<mapsto> PNone,
      ''fill_datetime'' \<mapsto> PNone,
      ''locked'' \<mapsto> PBool False,
      ''order_id'' \<mapsto> PNone,
      ''parent'' \<mapsto> PNone,
      ''children'' \<mapsto> PNone,
      ''active'' \<mapsto> PBool True,
      ''order_type'' \<mapsto> PStr ''limit'',
      ''limit_price'' \<mapsto> PFloat 101.5,
      ''calendar_spread_order'' \<mapsto> PBool False,
      ''commission'' \<mapsto> PFloat 0.0]"

section \<open>Properties\<close>

subsection \<open>Sequencing of fallible steps\<close>

lemma ebind_Inr [simp]: "ebind (Inr v) f = f v"
  by (simp add: ebind_def)

lemma ebind_Inl [simp]: "ebind (Inl e) f = Inl e"
  by (simp add: ebind_def)

lemma ebind_eq_Inr: "ebind r f = Inr y \<Longrightarrow> \<exists>v. r = Inr v \<and> f v = Inr y"
  by (cases r) simp_all

lemmas construction_defs =
  brokerOrder_init_def from_broker_order_args_to_resolved_args_def
  split_broker_order_args_def resolve_inputs_to_order_with_key_arguments_def
  calculate_prices_with_possible_legs_def sort_inputs_by_contract_date_order_def
  sort_idx_for_contracts_def sort_with_idx_def sort_contracts_with_idx_def
  sample_collaborators_def sample_resolve_inputs_to_order_def kwarg_def Let_def

subsection \<open>Wrong positional arity\<close>

lemma split_broker_order_args_arity:
  "length args \<noteq> 2 \<Longrightarrow> length args \<noteq> 4 \<Longrightarrow>
   split_broker_order_args env args a1 a2 a3 a4 a5 a6 = Inl ArgumentShapeError"
  by (simp add: split_broker_order_args_def)

text \<open>
  C9. A construction call whose positional argument count is neither 2 nor 4 fails with
  the ArgumentShapeError: the constructor returns the error and no order.
\<close>

theorem brokerOrder_init_wrong_arity:
  "length args \<noteq> 2 \<Longrightarrow> length args \<noteq> 4 \<Longrightarrow>
   brokerOrder_init env args kw = Inl ArgumentShapeError"
  by (simp add: brokerOrder_init_def from_broker_order_args_to_resolved_args_def
      split_broker_order_args_arity ebind_def)

theorem brokerOrder_init_wrong_arity_witness:
  "length [PStr ''a strategy'', PStr ''an instrument'', PInt 6] \<noteq> 2
   \<and> length [PStr ''a strategy'', PStr ''an instrument'', PInt 6] \<noteq> 4
   \<and> brokerOrder_init sample_collaborators
         [PStr ''a strategy'', PStr ''an instrument'', PInt 6] Map.empty = Inl ArgumentShapeError"
  using brokerOrder_init_wrong_arity
    [of "[PStr ''a strategy'', PStr ''an instrument'', PInt 6]" sample_collaborators Map.empty]
  by simp

subsection \<open>Fill reconciliation: the rejected case\<close>

lemma fill_check_fails:
  assumes "i < length t" "i < length f" "\<bar>t ! i\<bar> < \<bar>f ! i\<bar>"
  shows "\<not> fill_less_than_or_equal_to_desired_trade t f"
proof
  assume ok: "fill_less_than_or_equal_to_desired_trade t f"
  from assms(1,2) have len: "i < length (zip t f)" by simp
  from ok have "\<forall>n<length (zip t f). case zip t f ! n of (a, b) \<Rightarrow> \<bar>b\<bar> \<le> \<bar>a\<bar>"
    by (simp add: fill_less_than_or_equal_to_desired_trade_def list_all_length)
  then have "i < length (zip t f) \<longrightarrow> (case zip t f ! i of (a, b) \<Rightarrow> \<bar>b\<bar> \<le> \<bar>a\<bar>)"
    by (rule spec)
  from this len have "case zip t f ! i of (a, b) \<Rightarrow> \<bar>b\<bar> \<le> \<bar>a\<bar>" by (rule mp)
  with assms(1,2) have "\<bar>f ! i\<bar> \<le> \<bar>t ! i\<bar>" by simp
  with assms(3) show False by simp
qed

text \<open>
  C2. When the matched order's fill exceeds this order's trade in magnitude on some leg,
  the reconciliation returns the marker \<open>fill_exceeds_trade\<close> as a value (it raises
  nothing) and the order it leaves is the order it was given, every field unchanged.
\<close>

theorem overfill_is_rejected_without_mutation:
  assumes "i < length (trade self)" and "i < length (fill matched)"
    and "\<bar>trade self ! i\<bar> < \<bar>fill matched ! i\<bar>"
  shows "add_execution_details_from_matched_broker_order self matched
           = (Inr fill_exceeds_trade, self)"
  using fill_check_fails [OF assms]
  by (simp add: add_execution_details_from_matched_broker_order_def)

theorem overfill_is_rejected_without_mutation_witness:
  "\<exists>a m. brokerOrder_init sample_collaborators
             [PStr ''a strategy/an instrument/201003'', PInt 10] Map.empty = Inr a
     \<and> brokerOrder_init sample_collaborators
             [PStr ''a strategy/an instrument/201003'', PInt 15] [''fill'' \<mapsto> PInt 15] = Inr m
     \<and> trade a = [10] \<and> fill a = [0] \<and> fill m = [15]
     \<and> (0::nat) < length (trade a) \<and> 0 < length (fill m) \<and> \<bar>trade a ! 0\<bar> < \<bar>fill m ! 0\<bar>
     \<and> add_execution_details_from_matched_broker_order a m = (Inr fill_exceeds_trade, a)"
proof -
  have "\<exists>a. brokerOrder_init sample_collaborators
               [PStr ''a strategy/an instrument/201003'', PInt 10] Map.empty = Inr a
          \<and> trade a = [10] \<and> fill a = [0]"
    by (simp add: construction_defs)
  then obtain a where a:
    "brokerOrder_init sample_collaborators
       [PStr ''a strategy/an instrument/201003'', PInt 10] Map.empty = Inr a"
    "trade a = [10]" "fill a = [0]"
    by blast
  have "\<exists>m. brokerOrder_init sample_collaborators
               [PStr ''a strategy/an instrument/201003'', PInt 15] [''fill'' \<mapsto> PInt 15] = Inr m
          \<and> fill m = [15]"
    by (simp add: construction_defs)
  then obtain m where m:
    "brokerOrder_init sample_collaborators
       [PStr ''a strategy/an instrument/201003'', PInt 15] [''fill'' \<mapsto> PInt 15] = Inr m"
    "fill m = [15]"
    by blast
  have h: "(0::nat) < length (trade a)" "0 < length (fill m)" "\<bar>trade a ! 0\<bar> < \<bar>fill m ! 0\<bar>"
    using a m by simp_all
  from overfill_is_rejected_without_mutation [OF h] a m h show ?thesis
    by blast
qed

subsection \<open>What a successful construction went through\<close>

lemma brokerOrder_init_Inr:
  assumes "brokerOrder_init env args kw = Inr ord"
  shows "\<exists>ka. from_broker_order_args_to_resolved_args env args
              (kwarg kw ''fill'' PNone) (kwarg kw ''filled_price'' PNone)
              (kwarg kw ''leg_filled_price'' (PList [])) (kwarg kw ''mid_price'' PNone)
              (kwarg kw ''side_price'' PNone) (kwarg kw ''offside_price'' PNone) = Inr ka
          \<and> tradeable_object ord = ka_tradeable_object ka
          \<and> trade ord = ka_trade ka
          \<and> fill ord = ka_fill ka
          \<and> filled_price ord = ka_filled_price ka
          \<and> order_id ord = kwarg kw ''order_id'' no_order_id
          \<and> parent ord = kwarg kw ''parent'' no_parent
          \<and> children ord = kwarg kw ''children'' no_children
          \<and> order_type ord = kwarg kw ''order_type'' (brokerOrderType (PStr ''market''))
          \<and> order_info ord ''calendar_spread_order'' = Some (PBool (length (ka_trade ka) \<noteq> 1))
          \<and> order_info ord ''leg_filled_price'' = Some (ka_leg_filled_price ka)"
proof -
  from assms obtain ka where
    ka: "from_broker_order_args_to_resolved_args env args
              (kwarg kw ''fill'' PNone) (kwarg kw ''filled_price'' PNone)
              (kwarg kw ''leg_filled_price'' (PList [])) (kwarg kw ''mid_price'' PNone)
              (kwarg kw ''side_price'' PNone) (kwarg kw ''offside_price'' PNone) = Inr ka"
    by (auto simp: brokerOrder_init_def dest!: ebind_eq_Inr)
  with assms show ?thesis
    by (auto simp: brokerOrder_init_def Let_def)
qed

lemma sort_with_idx_Inr:
  "sort_with_idx xs idx = Inr ys \<Longrightarrow>
     ys = map (\<lambda>i. xs ! i) idx \<and> list_all (\<lambda>i. i < length xs) idx"
  by (simp add: sort_with_idx_def split: if_splits)

lemma sort_inputs_Inr:
  assumes "sort_inputs_by_contract_date_order ka = Inr ka'"
  shows "ka_trade ka' = map (\<lambda>i. ka_trade ka ! i) (sort_idx_for_contracts (ka_tradeable_object ka))
       \<and> ka_fill ka' = map (\<lambda>i. ka_fill ka ! i) (sort_idx_for_contracts (ka_tradeable_object ka))
       \<and> legs (ka_tradeable_object ka')
           = map (\<lambda>i. legs (ka_tradeable_object ka) ! i) (sort_idx_for_contracts (ka_tradeable_object ka))
       \<and> strategy_name (ka_tradeable_object ka') = strategy_name (ka_tradeable_object ka)
       \<and> instrument_code (ka_tradeable_object ka') = instrument_code (ka_tradeable_object ka)
       \<and> list_all (\<lambda>i. i < length (ka_trade ka)) (sort_idx_for_contracts (ka_tradeable_object ka))
       \<and> list_all (\<lambda>i. i < length (ka_fill ka)) (sort_idx_for_contracts (ka_tradeable_object ka))
       \<and> ka_filled_price ka' = ka_filled_price ka
       \<and> ka_leg_filled_price ka' = ka_leg_filled_price ka
       \<and> ka_mid_price ka' = ka_mid_price ka
       \<and> ka_side_price ka' = ka_side_price ka
       \<and> ka_offside_price ka' = ka_offside_price ka"
  using assms
  by (auto simp: sort_inputs_by_contract_date_order_def sort_contracts_with_idx_def Let_def
      dest!: ebind_eq_Inr sort_with_idx_Inr)

lemma from_args_Inr:
  assumes "from_broker_order_args_to_resolved_args env args a1 a2 a3 a4 a5 a6 = Inr ka'"
  shows "\<exists>raw ka. split_broker_order_args env args a1 a2 a3 a4 a5 a6 = Inr raw
          \<and> resolve_inputs_to_order_with_key_arguments env raw = Inr ka
          \<and> sort_inputs_by_contract_date_order ka = Inr ka'"
  using assms
  by (auto simp: from_broker_order_args_to_resolved_args_def dest!: ebind_eq_Inr)

lemma last_of_two: "length xs = 2 \<Longrightarrow> last xs = xs ! Suc 0"
proof -
  assume l: "length xs = 2"
  then have "xs \<noteq> []" by auto
  then have "last xs = xs ! (length xs - 1)" by (rule last_conv_nth)
  with l show ?thesis by simp
qed

lemma last_of_four: "length xs = 4 \<Longrightarrow> last xs = xs ! 3"
proof -
  assume l: "length xs = 4"
  then have "xs \<noteq> []" by auto
  then have "last xs = xs ! (length xs - 1)" by (rule last_conv_nth)
  with l show ?thesis by simp
qed

lemma split_Inr:
  assumes "split_broker_order_args env args a1 a2 a3 a4 a5 a6 = Inr raw"
  shows "(length args = 2 \<or> length args = 4) \<and> ka_trade raw = last args \<and> ka_fill raw = a1
       \<and> ka_filled_price raw = a2 \<and> ka_leg_filled_price raw = a3 \<and> ka_mid_price raw = a4
       \<and> ka_side_price raw = a5 \<and> ka_offside_price raw = a6"
  using assms
  by (auto simp: split_broker_order_args_def last_of_two last_of_four split: if_splits dest!: ebind_eq_Inr)

lemma resolve_Inr:
  assumes "resolve_inputs_to_order_with_key_arguments env raw = Inr ka"
  shows "resolve_inputs_to_order env (ka_trade raw) (ka_fill raw) (ka_filled_price raw)
            = Inr (ka_trade ka, ka_fill ka, ka_filled_price ka)
        \<and> calculate_prices_with_possible_legs env (ka_trade ka) (ka_leg_filled_price raw)
            (ka_mid_price raw) (ka_side_price raw) (ka_offside_price raw) (ka_filled_price raw)
            = Inr (ka_leg_filled_price ka, ka_mid_price ka, ka_side_price ka, ka_offside_price ka)
        \<and> ka_tradeable_object ka = ka_tradeable_object raw"
  using assms
  by (auto simp: resolve_inputs_to_order_with_key_arguments_def Let_def dest!: ebind_eq_Inr)

subsection \<open>Legacy per-leg prices\<close>

lemma calculate_prices_legacy:
  assumes "calculate_prices_with_possible_legs env t (PList []) m s o' (PList prices) = Inr (l, m', s', o'')"
  shows "l = PList prices"
  using assms
  by (auto simp: calculate_prices_with_possible_legs_def dest!: ebind_eq_Inr)

lemma calculate_prices_ambiguous:
  assumes "\<not> is_float v" "v \<noteq> PNone" "l \<noteq> PList []"
  shows "calculate_prices_with_possible_legs env t l m s o' v = Inl ParseAmbiguityError"
  using assms by (simp add: calculate_prices_with_possible_legs_def)

text \<open>
  C5. When the filled price handed to the constructor is a per-leg list and no
  \<open>leg_filled_price\<close> is supplied (it is left out or is the empty list), the order that
  is built has that list, element for element, as its \<open>leg_filled_price\<close>, while its
  \<open>filled_price\<close> is what the normalizer made of the list: the list is read before the
  normalizer runs.
\<close>

theorem legacy_leg_prices_are_kept:
  assumes ok: "brokerOrder_init env args kw = Inr ord"
    and fp: "kw ''filled_price'' = Some (PList prices)"
    and lfp: "kw ''leg_filled_price'' = None \<or> kw ''leg_filled_price'' = Some (PList [])"
  shows "leg_filled_price ord = Inr (PList prices)
       \<and> (\<exists>resolved_trade resolved_fill.
            resolve_inputs_to_order env (last args) (kwarg kw ''fill'' PNone) (PList prices)
              = Inr (resolved_trade, resolved_fill, filled_price ord))"
proof -
  have a2: "kwarg kw ''filled_price'' PNone = PList prices"
    using fp by (simp add: kwarg_def)
  have a3: "kwarg kw ''leg_filled_price'' (PList []) = PList []"
    using lfp by (auto simp: kwarg_def)
  from brokerOrder_init_Inr [OF ok] obtain ka' where
    ka': "from_broker_order_args_to_resolved_args env args
              (kwarg kw ''fill'' PNone) (PList prices) (PList []) (kwarg kw ''mid_price'' PNone)
              (kwarg kw ''side_price'' PNone) (kwarg kw ''offside_price'' PNone) = Inr ka'"
    and f: "filled_price ord = ka_filled_price ka'"
    and l: "order_info ord ''leg_filled_price'' = Some (ka_leg_filled_price ka')"
    unfolding a2 a3 by blast
  from from_args_Inr [OF ka'] obtain raw ka where
    raw: "split_broker_order_args env args
              (kwarg kw ''fill'' PNone) (PList prices) (PList []) (kwarg kw ''mid_price'' PNone)
              (kwarg kw ''side_price'' PNone) (kwarg kw ''offside_price'' PNone) = Inr raw"
    and ka: "resolve_inputs_to_order_with_key_arguments env raw = Inr ka"
    and srt: "sort_inputs_by_contract_date_order ka = Inr ka'"
    by blast
  note r = split_Inr [OF raw]
  note k = resolve_Inr [OF ka]
  note s = sort_inputs_Inr [OF srt]
  from k r have "ka_leg_filled_price ka = PList prices"
    by (auto dest: calculate_prices_legacy)
  with s l have "leg_filled_price ord = Inr (PList prices)"
    by (simp add: leg_filled_price_def getitem_def)
  moreover from k r s f
  have "resolve_inputs_to_order env (last args) (kwarg kw ''fill'' PNone) (PList prices)
          = Inr (ka_trade ka, ka_fill ka, filled_price ord)"
    by simp
  ultimately show ?thesis by blast
qed

theorem legacy_leg_prices_are_kept_witness:
  "\<exists>ord. brokerOrder_init sample_collaborators
            [PStr ''a strategy/an instrument/201003_201406'', PList [PInt 6, PInt (- 6)]]
            [''filled_price'' \<mapsto> PList [PFloat 101.5, PFloat 102.25]] = Inr ord
     \<and> leg_filled_price ord = Inr (PList [PFloat 101.5, PFloat 102.25])
     \<and> filled_price ord = PFloat (- 0.75)
     \<and> (\<exists>resolved_trade resolved_fill.
           resolve_inputs_to_order sample_collaborators
             (last [PStr ''a strategy/an instrument/201003_201406'', PList [PInt 6, PInt (- 6)]])
             (kwarg [''filled_price'' \<mapsto> PList [PFloat 101.5, PFloat 102.25]] ''fill'' PNone)
             (PList [PFloat 101.5, PFloat 102.25])
           = Inr (resolved_trade, resolved_fill, filled_price ord))"
proof -
  have "\<exists>ord. brokerOrder_init sample_collaborators
            [PStr ''a strategy/an instrument/201003_201406'', PList [PInt 6, PInt (- 6)]]
            [''filled_price'' \<mapsto> PList [PFloat 101.5, PFloat 102.25]] = Inr ord
          \<and> filled_price ord = PFloat (- 0.75)"
    by (simp add: construction_defs sample_leg_sign_def)
  then obtain ord where ok: "brokerOrder_init sample_collaborators
            [PStr ''a strategy/an instrument/201003_201406'', PList [PInt 6, PInt (- 6)]]
            [''filled_price'' \<mapsto> PList [PFloat 101.5, PFloat 102.25]] = Inr ord"
    and p: "filled_price ord = PFloat (- 0.75)"
    by blast
  have fp: "[''filled_price'' \<mapsto> PList [PFloat 101.5, PFloat 102.25]] ''filled_price''
              = Some (PList [PFloat 101.5, PFloat 102.25])"
    by simp
  have lfp: "[''filled_price'' \<mapsto> PList [PFloat 101.5, PFloat 102.25]] ''leg_filled_price'' = None
       \<or> [''filled_price'' \<mapsto> PList [PFloat 101.5, PFloat 102.25]] ''leg_filled_price''
            = Some (PList [])"
    by simp
  from legacy_leg_prices_are_kept [OF ok fp lfp] ok p show ?thesis by blast
qed

subsection \<open>The calendar-spread flag\<close>

lemma apply_mutation_keeps:
  "order_info (apply_mutation m ord) ''calendar_spread_order'' = order_info ord ''calendar_spread_order''
   \<and> trade (apply_mutation m ord) = trade ord"
  by (cases m)
     (simp_all add: limit_price_setter_def submit_datetime_setter_def manual_fill_setter_def
        algo_comment_setter_def broker_permid_setter_def broker_clientid_setter_def
        broker_tempid_setter_def commission_setter_def leg_filled_price_setter_def
        add_execution_details_from_matched_broker_order_def fill_order_def Let_def
        split: sum.splits)

lemma fold_apply_mutation_keeps:
  "order_info (fold apply_mutation ms ord) ''calendar_spread_order'' = order_info ord ''calendar_spread_order''
   \<and> trade (fold apply_mutation ms ord) = trade ord"
  by (induction ms arbitrary: ord) (simp_all add: apply_mutation_keeps)

text \<open>
  C4. For every constructed broker order \<open>calendar_spread_order\<close> is the truth value of
  "the resolved trade does not have exactly one leg": false for one leg, true otherwise.
  The constructor is the only place that writes it: after any sequence of the setters
  and reconciliations of the class the flag reads the same, and so does the trade.
\<close>

theorem calendar_spread_order_is_fixed_at_construction:
  assumes "brokerOrder_init env args kw = Inr ord"
  shows "calendar_spread_order ord = Inr (PBool (length (trade ord) \<noteq> 1))
       \<and> calendar_spread_order (fold apply_mutation ms ord) = calendar_spread_order ord
       \<and> trade (fold apply_mutation ms ord) = trade ord"
proof -
  from brokerOrder_init_Inr [OF assms]
  have "order_info ord ''calendar_spread_order'' = Some (PBool (length (trade ord) \<noteq> 1))"
    by auto
  then show ?thesis
    by (simp add: calendar_spread_order_def getitem_def fold_apply_mutation_keeps)
qed

theorem calendar_spread_order_is_fixed_at_construction_witness:
  "\<exists>ord. brokerOrder_init sample_collaborators
            [PStr ''a strategy'', PStr ''an instrument'', PList [PStr ''201406'', PStr ''201003''],
             PList [PInt 6, PInt (- 6)]] Map.empty = Inr ord
     \<and> length (trade ord) = 2
     \<and> calendar_spread_order ord = Inr (PBool (length (trade ord) \<noteq> 1))
     \<and> calendar_spread_order
          (fold apply_mutation
             [Set_commission (PFloat 2.3), Set_leg_filled_price (PList [PFloat 101.5, PFloat 102.25]),
              Add_execution_details ord, Set_limit_price (PFloat 101.5)] ord)
         = calendar_spread_order ord
     \<and> trade (fold apply_mutation
             [Set_commission (PFloat 2.3), Set_leg_filled_price (PList [PFloat 101.5, PFloat 102.25]),
              Add_execution_details ord, Set_limit_price (PFloat 101.5)] ord)
         = trade ord"
proof -
  have "\<exists>ord. brokerOrder_init sample_collaborators
            [PStr ''a strategy'', PStr ''an instrument'', PList [PStr ''201406'', PStr ''201003''],
             PList [PInt 6, PInt (- 6)]] Map.empty = Inr ord
          \<and> length (trade ord) = 2"
    by (simp add: construction_defs)
  then obtain ord where ok: "brokerOrder_init sample_collaborators
            [PStr ''a strategy'', PStr ''an instrument'', PList [PStr ''201406'', PStr ''201003''],
             PList [PInt 6, PInt (- 6)]] Map.empty = Inr ord"
    and n: "length (trade ord) = 2"
    by blast
  from calendar_spread_order_is_fixed_at_construction [OF ok] ok n show ?thesis by blast
qed

subsection \<open>The shared sort permutation\<close>

lemma sort_idx_for_contracts_perm:
  "distinct (sort_idx_for_contracts tobj)
   \<and> set (sort_idx_for_contracts tobj) = {0..<length (legs tobj)}
   \<and> length (sort_idx_for_contracts tobj) = length (legs tobj)
   \<and> sorted (map (\<lambda>i. legs tobj ! i) (sort_idx_for_contracts tobj))"
  by (simp add: sort_idx_for_contracts_def)

text \<open>
  C3. Every construction that succeeds, whatever the order in which the contract dates
  were supplied, applies one index list to the resolved trade, to the resolved fill and
  to the legs of the tradeable object: the list \<open>p\<close> that \<open>sort_idx_for_contracts\<close>
  derives from the tradeable object, a permutation of the leg indices. Position \<open>i\<close> of
  each of the three sequences of the order is position \<open>p ! i\<close> of the sequence before
  sorting, so it refers to the same leg; the three have the same length and the legs
  are in ascending order of contract date.
\<close>

theorem one_permutation_for_trade_fill_and_legs:
  assumes "brokerOrder_init env args kw = Inr ord"
  shows "\<exists>raw ka p.
           split_broker_order_args env args
              (kwarg kw ''fill'' PNone) (kwarg kw ''filled_price'' PNone)
              (kwarg kw ''leg_filled_price'' (PList [])) (kwarg kw ''mid_price'' PNone)
              (kwarg kw ''side_price'' PNone) (kwarg kw ''offside_price'' PNone) = Inr raw
         \<and> resolve_inputs_to_order_with_key_arguments env raw = Inr ka
         \<and> p = sort_idx_for_contracts (ka_tradeable_object ka)
         \<and> distinct p \<and> set p = {0..<length (legs (ka_tradeable_object ka))}
         \<and> trade ord = map (\<lambda>i. ka_trade ka ! i) p
         \<and> fill ord = map (\<lambda>i. ka_fill ka ! i) p
         \<and> legs (tradeable_object ord) = map (\<lambda>i. legs (ka_tradeable_object ka) ! i) p
         \<and> list_all (\<lambda>i. i < length (ka_trade ka) \<and> i < length (ka_fill ka)) p
         \<and> length (trade ord) = length (legs (tradeable_object ord))
         \<and> length (fill ord) = length (legs (tradeable_object ord))
         \<and> sorted (legs (tradeable_object ord))"
proof -
  from brokerOrder_init_Inr [OF assms] obtain ka' where
    ka': "from_broker_order_args_to_resolved_args env args
              (kwarg kw ''fill'' PNone) (kwarg kw ''filled_price'' PNone)
              (kwarg kw ''leg_filled_price'' (PList [])) (kwarg kw ''mid_price'' PNone)
              (kwarg kw ''side_price'' PNone) (kwarg kw ''offside_price'' PNone) = Inr ka'"
    and o: "tradeable_object ord = ka_tradeable_object ka'" "trade ord = ka_trade ka'"
      "fill ord = ka_fill ka'"
    by blast
  from from_args_Inr [OF ka'] obtain raw ka where
    raw: "split_broker_order_args env args
              (kwarg kw ''fill'' PNone) (kwarg kw ''filled_price'' PNone)
              (kwarg kw ''leg_filled_price'' (PList [])) (kwarg kw ''mid_price'' PNone)
              (kwarg kw ''side_price'' PNone) (kwarg kw ''offside_price'' PNone) = Inr raw"
    and ka: "resolve_inputs_to_order_with_key_arguments env raw = Inr ka"
    and srt: "sort_inputs_by_contract_date_order ka = Inr ka'"
    by blast
  define p where "p = sort_idx_for_contracts (ka_tradeable_object ka)"
  note s = sort_inputs_Inr [OF srt, folded p_def]
  note q = sort_idx_for_contracts_perm [of "ka_tradeable_object ka", folded p_def]
  have t: "trade ord = map (\<lambda>i. ka_trade ka ! i) p" using s o by simp
  have f: "fill ord = map (\<lambda>i. ka_fill ka ! i) p" using s o by simp
  have l: "legs (tradeable_object ord) = map (\<lambda>i. legs (ka_tradeable_object ka) ! i) p"
    using s o by simp
  have b: "list_all (\<lambda>i. i < length (ka_trade ka) \<and> i < length (ka_fill ka)) p"
    using s by (simp add: list_all_iff)
  have srtd: "sorted (legs (tradeable_object ord))" using q l by simp
  have len: "length (trade ord) = length (legs (tradeable_object ord))"
    "length (fill ord) = length (legs (tradeable_object ord))"
    using t f l by simp_all
  from raw ka p_def q t f l b len srtd show ?thesis by blast
qed

theorem one_permutation_for_trade_fill_and_legs_witness:
  "\<exists>ord. brokerOrder_init sample_collaborators
            [PStr ''a strategy'', PStr ''an instrument'', PList [PStr ''201406'', PStr ''201003''],
             PList [PInt 6, PInt (- 6)]] [''fill'' \<mapsto> PList [PInt 2, PInt (- 1)]] = Inr ord
     \<and> trade ord = [- 6, 6] \<and> fill ord = [- 1, 2]
     \<and> legs (tradeable_object ord) = [''201003'', ''201406'']
     \<and> (\<exists>raw ka p.
           split_broker_order_args sample_collaborators
              [PStr ''a strategy'', PStr ''an instrument'', PList [PStr ''201406'', PStr ''201003''],
               PList [PInt 6, PInt (- 6)]]
              (kwarg [''fill'' \<mapsto> PList [PInt 2, PInt (- 1)]] ''fill'' PNone)
              (kwarg [''fill'' \<mapsto> PList [PInt 2, PInt (- 1)]] ''filled_price'' PNone)
              (kwarg [''fill'' \<mapsto> PList [PInt 2, PInt (- 1)]] ''leg_filled_price'' (PList []))
              (kwarg [''fill'' \<mapsto> PList [PInt 2, PInt (- 1)]] ''mid_price'' PNone)
              (kwarg [''fill'' \<mapsto> PList [PInt 2, PInt (- 1)]] ''side_price'' PNone)
              (kwarg [''fill'' \<mapsto> PList [PInt 2, PInt (- 1)]] ''offside_price'' PNone) = Inr raw
         \<and> resolve_inputs_to_order_with_key_arguments sample_collaborators raw = Inr ka
         \<and> p = sort_idx_for_contracts (ka_tradeable_object ka)
         \<and> distinct p \<and> set p = {0..<length (legs (ka_tradeable_object ka))}
         \<and> trade ord = map (\<lambda>i. ka_trade ka ! i) p
         \<and> fill ord = map (\<lambda>i. ka_fill ka ! i) p
         \<and> legs (tradeable_object ord) = map (\<lambda>i. legs (ka_tradeable_object ka) ! i) p
         \<and> list_all (\<lambda>i. i < length (ka_trade ka) \<and> i < length (ka_fill ka)) p
         \<and> length (trade ord) = length (legs (tradeable_object ord))
         \<and> length (fill ord) = length (legs (tradeable_object ord))
         \<and> sorted (legs (tradeable_object ord)))"
proof -
  have "\<exists>ord. brokerOrder_init sample_collaborators
            [PStr ''a strategy'', PStr ''an instrument'', PList [PStr ''201406'', PStr ''201003''],
             PList [PInt 6, PInt (- 6)]] [''fill'' \<mapsto> PList [PInt 2, PInt (- 1)]] = Inr ord
          \<and> trade ord = [- 6, 6] \<and> fill ord = [- 1, 2]
          \<and> legs (tradeable_object ord) = [''201003'', ''201406'']"
    by (simp add: construction_defs)
  then obtain ord where ok: "brokerOrder_init sample_collaborators
            [PStr ''a strategy'', PStr ''an instrument'', PList [PStr ''201406'', PStr ''201003''],
             PList [PInt 6, PInt (- 6)]] [''fill'' \<mapsto> PList [PInt 2, PInt (- 1)]] = Inr ord"
    and v: "trade ord = [- 6, 6]" "fill ord = [- 1, 2]"
      "legs (tradeable_object ord) = [''201003'', ''201406'']"
    by blast
  from one_permutation_for_trade_fill_and_legs [OF ok] ok v show ?thesis by blast
qed

subsection \<open>Fill reconciliation: the accepted case\<close>

text \<open>
  When the fill check passes and the matched order has the four entries that are read,
  the reconciliation returns \<open>success\<close> and leaves the order with the matched order's
  fill, filled price and fill timestamp, its commission, broker permanent id and algo
  comment, and with the builtin class \<^verbatim>\<open>list\<close> as \<open>leg_filled_price\<close>.
\<close>

lemma add_execution_details_accepts:
  assumes "fill_less_than_or_equal_to_desired_trade (trade self) (fill matched)"
    and "order_info matched ''commission'' = Some comm"
    and "order_info matched ''broker_permid'' = Some permid"
    and "order_info matched ''algo_comment'' = Some comment"
    and "order_info matched ''leg_filled_price'' = Some leg_prices"
  shows "add_execution_details_from_matched_broker_order self matched
           = (Inr success,
              self\<lparr>fill := fill matched, filled_price := filled_price matched,
                   fill_datetime := fill_datetime matched,
                   order_info := (order_info self)
                     (''commission'' \<mapsto> comm, ''broker_permid'' \<mapsto> permid,
                      ''algo_comment'' \<mapsto> comment, ''leg_filled_price'' \<mapsto> PListClass)\<rparr>)"
  using assms
  by (simp add: add_execution_details_from_matched_broker_order_def fill_order_def
      commission_def broker_permid_def algo_comment_def leg_filled_price_def getitem_def
      commission_setter_def broker_permid_setter_def algo_comment_setter_def
      leg_filled_price_setter_def)

lemma add_execution_details_success_leg_filled_price:
  assumes "add_execution_details_from_matched_broker_order self matched = (Inr success, self')"
  shows "leg_filled_price self' = Inr PListClass"
  using assms
  by (auto simp: add_execution_details_from_matched_broker_order_def Let_def
      leg_filled_price_def leg_filled_price_setter_def getitem_def
      split: if_splits sum.splits)

text \<open>
  C1. The claim is that an accepted reconciliation copies the matched order's fill
  quantities, filled price, fill timestamp, commission, broker permanent id, algo comment
  and per-leg filled prices, so that afterwards the order's \<open>leg_filled_price\<close> equals the
  matched order's. The code does not do the last: on the spec's acceptance example
  (trade \<open>[10]\<close>; matched fill \<open>[10]\<close>, price \<open>101.5\<close>, commission \<open>2.3\<close>, leg prices
  \<open>[101.5]\<close>) the call returns \<open>success\<close> and copies fill, price and commission, and the
  order's \<open>leg_filled_price\<close> is then the class \<^verbatim>\<open>list\<close>, not the list \<open>[101.5]\<close>.
\<close>

theorem reconciliation_stores_list_class_as_leg_filled_price:
  "\<exists>a m. brokerOrder_init sample_collaborators
             [PStr ''a strategy/an instrument/201003'', PInt 10] Map.empty = Inr a
     \<and> brokerOrder_init sample_collaborators
             [PStr ''a strategy/an instrument/201003'', PInt 10]
             [''fill'' \<mapsto> PInt 10, ''filled_price'' \<mapsto> PFloat 101.5,
              ''commission'' \<mapsto> PFloat 2.3, ''leg_filled_price'' \<mapsto> PList [PFloat 101.5]] = Inr m
     \<and> trade a = [10] \<and> fill m = [10]
     \<and> leg_filled_price m = Inr (PList [PFloat 101.5])
     \<and> fst (add_execution_details_from_matched_broker_order a m) = Inr success
     \<and> fill (snd (add_execution_details_from_matched_broker_order a m)) = [10]
     \<and> filled_price (snd (add_execution_details_from_matched_broker_order a m)) = PFloat 101.5
     \<and> commission (snd (add_execution_details_from_matched_broker_order a m)) = Inr (PFloat 2.3)
     \<and> leg_filled_price (snd (add_execution_details_from_matched_broker_order a m)) = Inr PListClass
     \<and> leg_filled_price (snd (add_execution_details_from_matched_broker_order a m))
           \<noteq> leg_filled_price m"
proof -
  have "\<exists>a. brokerOrder_init sample_collaborators
               [PStr ''a strategy/an instrument/201003'', PInt 10] Map.empty = Inr a
          \<and> trade a = [10]"
    by (simp add: construction_defs)
  then obtain a where a:
    "brokerOrder_init sample_collaborators
       [PStr ''a strategy/an instrument/201003'', PInt 10] Map.empty = Inr a"
    "trade a = [10]"
    by blast
  have "\<exists>m. brokerOrder_init sample_collaborators
             [PStr ''a strategy/an instrument/201003'', PInt 10]
             [''fill'' \<mapsto> PInt 10, ''filled_price'' \<mapsto> PFloat 101.5,
              ''commission'' \<mapsto> PFloat 2.3, ''leg_filled_price'' \<mapsto> PList [PFloat 101.5]] = Inr m
          \<and> fill m = [10] \<and> filled_price m = PFloat 101.5
          \<and> order_info m ''commission'' = Some (PFloat 2.3)
          \<and> order_info m ''broker_permid'' = Some (PStr '''')
          \<and> order_info m ''algo_comment'' = Some (PStr '''')
          \<and> order_info m ''leg_filled_price'' = Some (PList [PFloat 101.5])"
    by (simp add: construction_defs)
  then obtain m where m:
    "brokerOrder_init sample_collaborators
             [PStr ''a strategy/an instrument/201003'', PInt 10]
             [''fill'' \<mapsto> PInt 10, ''filled_price'' \<mapsto> PFloat 101.5,
              ''commission'' \<mapsto> PFloat 2.3, ''leg_filled_price'' \<mapsto> PList [PFloat 101.5]] = Inr m"
    "fill m = [10]" "filled_price m = PFloat 101.5"
    and i: "order_info m ''commission'' = Some (PFloat 2.3)"
    "order_info m ''broker_permid'' = Some (PStr '''')"
    "order_info m ''algo_comment'' = Some (PStr '''')"
    "order_info m ''leg_filled_price'' = Some (PList [PFloat 101.5])"
    by blast
  have ok: "fill_less_than_or_equal_to_desired_trade (trade a) (fill m)"
    using a m by (simp add: fill_less_than_or_equal_to_desired_trade_def)
  note r = add_execution_details_accepts [OF ok i]
  have l: "leg_filled_price m = Inr (PList [PFloat 101.5])"
    using i by (simp add: leg_filled_price_def getitem_def)
  have "fst (add_execution_details_from_matched_broker_order a m) = Inr success"
    "fill (snd (add_execution_details_from_matched_broker_order a m)) = [10]"
    "filled_price (snd (add_execution_details_from_matched_broker_order a m)) = PFloat 101.5"
    "commission (snd (add_execution_details_from_matched_broker_order a m)) = Inr (PFloat 2.3)"
    "leg_filled_price (snd (add_execution_details_from_matched_broker_order a m)) = Inr PListClass"
    unfolding r using m by (simp_all add: commission_def leg_filled_price_def getitem_def)
  with a m l show ?thesis by auto
qed

subsection \<open>The call and the body of the constructor\<close>

text \<open>
  An order that a call builds is an order that the body builds on the bound keyword
  arguments, so what is proved of every order of \<open>brokerOrder_init\<close> holds of every
  order of \<open>brokerOrder_new\<close>.
\<close>

lemma brokerOrder_new_Inr:
  assumes "brokerOrder_new env args kw = Inr ord"
  shows "kw ''self'' = None
       \<and> brokerOrder_init env args
             (case kw ''leg_filled_price'' of
                None \<Rightarrow> kw(''leg_filled_price'' \<mapsto> PList (default_leg_filled_price env))
              | Some v \<Rightarrow> kw) = Inr ord"
  using assms by (simp add: brokerOrder_new_def split: if_splits)

lemma brokerOrder_new_explicit:
  assumes "kw ''self'' = None" and "kw ''leg_filled_price'' = Some l"
  shows "brokerOrder_new env args kw = brokerOrder_init env args kw"
  using assms by (simp add: brokerOrder_new_def)

lemma brokerOrder_init_cong:
  assumes "\<And>k. k \<in> set keyword_names \<Longrightarrow> kw1 k = kw2 k"
  shows "brokerOrder_init env args kw1 = brokerOrder_init env args kw2"
proof -
  have k: "\<And>k d. k \<in> set keyword_names \<Longrightarrow> kwarg kw1 k d = kwarg kw2 k d"
    by (simp add: kwarg_def assms)
  show ?thesis
    by (simp add: brokerOrder_init_def k keyword_names_def)
qed

lemma brokerOrder_new_cong:
  assumes "\<And>k. k \<in> set parameter_names \<Longrightarrow> kw1 k = kw2 k"
  shows "brokerOrder_new env args kw1 = brokerOrder_new env args kw2"
proof -
  have s: "kw1 ''self'' = kw2 ''self''"
    using assms by (simp add: parameter_names_def)
  have l: "kw1 ''leg_filled_price'' = kw2 ''leg_filled_price''"
    using assms by (simp add: parameter_names_def keyword_names_def)
  have "brokerOrder_init env args
          (case kw1 ''leg_filled_price'' of
             None \<Rightarrow> kw1(''leg_filled_price'' \<mapsto> PList (default_leg_filled_price env))
           | Some v \<Rightarrow> kw1)
      = brokerOrder_init env args
          (case kw2 ''leg_filled_price'' of
             None \<Rightarrow> kw2(''leg_filled_price'' \<mapsto> PList (default_leg_filled_price env))
           | Some v \<Rightarrow> kw2)"
  proof (rule brokerOrder_init_cong)
    fix k assume "k \<in> set keyword_names"
    then have "kw1 k = kw2 k" using assms by (simp add: parameter_names_def)
    with l show "(case kw1 ''leg_filled_price'' of
             None \<Rightarrow> kw1(''leg_filled_price'' \<mapsto> PList (default_leg_filled_price env))
           | Some v \<Rightarrow> kw1) k
        = (case kw2 ''leg_filled_price'' of
             None \<Rightarrow> kw2(''leg_filled_price'' \<mapsto> PList (default_leg_filled_price env))
           | Some v \<Rightarrow> kw2) k"
      by (simp split: option.splits)
  qed
  with s show ?thesis by (simp add: brokerOrder_new_def)
qed

subsection \<open>Keyword arguments\<close>

text \<open>
  C10, as the code has it. Keyword arguments whose names are outside the parameters of
  the signature, that is outside the 25 documented keywords and other than \<^verbatim>\<open>self\<close>,
  are swallowed: adding any of them to a construction call changes neither its outcome
  nor any field of the order it builds.
\<close>

theorem unknown_keywords_are_ignored:
  assumes "dom extra \<inter> set parameter_names = {}"
  shows "brokerOrder_new env args (kw ++ extra) = brokerOrder_new env args kw"
proof (rule brokerOrder_new_cong)
  fix k assume "k \<in> set parameter_names"
  with assms have "k \<notin> dom extra" by blast
  then show "(kw ++ extra) k = kw k" by (simp add: map_add_dom_app_simps)
qed

lemmas call_defs = brokerOrder_new_def construction_defs

theorem unknown_keywords_are_ignored_witness:
  "dom [''modification_status'' \<mapsto> PNone, ''reference_of_controlling_algo'' \<mapsto> PStr ''x'']
      \<inter> set parameter_names = {}
   \<and> brokerOrder_new sample_collaborators [PStr ''a strategy/an instrument/201003'', PInt 6]
        ([''commission'' \<mapsto> PFloat 2.3]
           ++ [''modification_status'' \<mapsto> PNone, ''reference_of_controlling_algo'' \<mapsto> PStr ''x''])
      = brokerOrder_new sample_collaborators [PStr ''a strategy/an instrument/201003'', PInt 6]
          [''commission'' \<mapsto> PFloat 2.3]
   \<and> (\<exists>ord. brokerOrder_new sample_collaborators
               [PStr ''a strategy/an instrument/201003'', PInt 6]
               [''commission'' \<mapsto> PFloat 2.3] = Inr ord
            \<and> commission ord = Inr (PFloat 2.3))"
proof -
  have d: "dom [''modification_status'' \<mapsto> PNone, ''reference_of_controlling_algo'' \<mapsto> PStr ''x'']
      \<inter> set parameter_names = {}"
    by (simp add: parameter_names_def keyword_names_def)
  have e: "\<exists>ord. brokerOrder_new sample_collaborators
               [PStr ''a strategy/an instrument/201003'', PInt 6]
               [''commission'' \<mapsto> PFloat 2.3] = Inr ord
            \<and> commission ord = Inr (PFloat 2.3)"
    by (simp add: call_defs commission_def getitem_def)
  from unknown_keywords_are_ignored [OF d] d e show ?thesis by blast
qed

text \<open>
  C10, as stated for every name outside the documented set, fails: \<^verbatim>\<open>self\<close> is not
  one of the documented keywords, and a call that builds an order raises TypeError once
  the keyword \<^verbatim>\<open>self\<close> is added to it.
\<close>

theorem keyword_self_counterexample:
  "dom [''self'' \<mapsto> PInt 1] \<inter> set keyword_names = {}
   \<and> brokerOrder_new sample_collaborators [PStr ''a strategy/an instrument/201003'', PInt 6]
        (Map.empty ++ [''self'' \<mapsto> PInt 1]) = Inl TypeError
   \<and> \<not> isl (brokerOrder_new sample_collaborators
               [PStr ''a strategy/an instrument/201003'', PInt 6] Map.empty)
   \<and> brokerOrder_new sample_collaborators [PStr ''a strategy/an instrument/201003'', PInt 6]
        (Map.empty ++ [''self'' \<mapsto> PInt 1])
      \<noteq> brokerOrder_new sample_collaborators [PStr ''a strategy/an instrument/201003'', PInt 6]
          Map.empty"
  by (simp add: call_defs keyword_names_def)

subsection \<open>The two positional forms\<close>

lemma split_on_no_sep: "sep \<notin> set w \<Longrightarrow> split_on sep w = [w]"
  by (induction w) auto

lemma split_on_append_sep:
  "sep \<notin> set w \<Longrightarrow> split_on sep (w @ sep # rest) = w # split_on sep rest"
  by (induction w) auto

lemma set_join_with:
  "set (join_with sep ws) \<subseteq> insert sep (\<Union>w \<in> set ws. set w)"
  by (induction sep ws rule: join_with.induct) auto

lemma split_on_join_with:
  "ws \<noteq> [] \<Longrightarrow> \<forall>w \<in> set ws. sep \<notin> set w \<Longrightarrow> split_on sep (join_with sep ws) = ws"
  by (induction sep ws rule: join_with.induct) (auto simp: split_on_no_sep split_on_append_sep)

lemma strs_of_map_PStr: "strs_of (map PStr ds) = Inr ds"
  by (induction ds) auto

lemma from_key_composite_key:
  assumes "CHR ''/'' \<notin> set strategy" and "CHR ''/'' \<notin> set instrument" and "dates \<noteq> []"
    and "\<forall>d \<in> set dates. CHR ''/'' \<notin> set d \<and> CHR ''_'' \<notin> set d"
  shows "futuresContractStrategy_from_key (PStr (composite_key strategy instrument dates))
           = Inr \<lparr>strategy_name = strategy, instrument_code = instrument, legs = dates\<rparr>"
proof -
  have "CHR ''/'' \<notin> set (join_with CHR ''_'' dates)"
    using set_join_with [of "CHR ''_''" dates] assms(4) by auto
  then have "split_on CHR ''/'' (composite_key strategy instrument dates)
               = [strategy, instrument, join_with CHR ''_'' dates]"
    using assms(1,2)
    by (simp add: composite_key_def split_on_append_sep split_on_no_sep)
  moreover have "split_on CHR ''_'' (join_with CHR ''_'' dates) = dates"
    using assms(3,4) by (simp add: split_on_join_with)
  ultimately show ?thesis by simp
qed

text \<open>
  C7. Take the key parser and the tradeable-object constructor of the documented key
  format, and any order description: a strategy and an instrument without \<^verbatim>\<open>'/'\<close>,
  and one or more contract dates without \<^verbatim>\<open>'/'\<close> and \<^verbatim>\<open>'_'\<close>. Its composite key
  parses to the tradeable object that its three components build. So the call with the
  composite key and a trade, and the call with strategy, instrument, the list of contract
  dates and the same trade, with the same keyword arguments, have the same outcome: the
  same order in every field, or the same error. For a single contract date the same holds
  of the call that passes the date as one string.
\<close>

theorem two_and_four_argument_forms_agree:
  assumes parser: "from_key env = futuresContractStrategy_from_key"
    and constructor: "new_futuresContractStrategy env = futuresContractStrategy_init"
    and names: "CHR ''/'' \<notin> set strategy" "CHR ''/'' \<notin> set instrument"
    and dates: "dates \<noteq> []" "\<forall>d \<in> set dates. CHR ''/'' \<notin> set d \<and> CHR ''_'' \<notin> set d"
  shows "futuresContractStrategy_from_key (PStr (composite_key strategy instrument dates))
           = futuresContractStrategy_init (PStr strategy) (PStr instrument) (PList (map PStr dates))
       \<and> brokerOrder_new env [PStr (composite_key strategy instrument dates), trade_arg] kw
           = brokerOrder_new env
               [PStr strategy, PStr instrument, PList (map PStr dates), trade_arg] kw
       \<and> (length dates = 1 \<longrightarrow>
            brokerOrder_new env [PStr (composite_key strategy instrument dates), trade_arg] kw
              = brokerOrder_new env [PStr strategy, PStr instrument, PStr (hd dates), trade_arg] kw)"
proof -
  note k = from_key_composite_key [OF names dates]
  have l: "futuresContractStrategy_init (PStr strategy) (PStr instrument) (PList (map PStr dates))
             = Inr \<lparr>strategy_name = strategy, instrument_code = instrument, legs = dates\<rparr>"
    by (simp add: strs_of_map_PStr)
  have s: "futuresContractStrategy_init (PStr strategy) (PStr instrument) (PStr (hd dates))
             = Inr \<lparr>strategy_name = strategy, instrument_code = instrument, legs = dates\<rparr>"
    if "length dates = 1"
    using that by (cases dates) simp_all
  have a: "from_key env (PStr (composite_key strategy instrument dates))
             = new_futuresContractStrategy env (PStr strategy) (PStr instrument)
                 (PList (map PStr dates))"
    by (simp only: parser constructor k l)
  have b: "from_key env (PStr (composite_key strategy instrument dates))
             = new_futuresContractStrategy env (PStr strategy) (PStr instrument)
                 (PStr (hd dates))"
    if "length dates = 1"
    by (simp only: parser constructor k s [OF that])
  have e: "brokerOrder_init env [PStr (composite_key strategy instrument dates), trade_arg] kw'
             = brokerOrder_init env
                 [PStr strategy, PStr instrument, PList (map PStr dates), trade_arg] kw'" for kw'
    by (simp add: brokerOrder_init_def from_broker_order_args_to_resolved_args_def
        split_broker_order_args_def a)
  have f: "brokerOrder_init env [PStr (composite_key strategy instrument dates), trade_arg] kw'
             = brokerOrder_init env
                 [PStr strategy, PStr instrument, PStr (hd dates), trade_arg] kw'"
    if "length dates = 1" for kw'
    by (simp add: brokerOrder_init_def from_broker_order_args_to_resolved_args_def
        split_broker_order_args_def b [OF that])
  from k l e f show ?thesis
    by (simp add: brokerOrder_new_def)
qed

theorem two_and_four_argument_forms_agree_witness:
  "from_key sample_collaborators = futuresContractStrategy_from_key
   \<and> new_futuresContractStrategy sample_collaborators = futuresContractStrategy_init
   \<and> CHR ''/'' \<notin> set ''a strategy'' \<and> CHR ''/'' \<notin> set ''an instrument''
   \<and> [''201003'', ''201406''] \<noteq> []
   \<and> CHR ''/'' \<notin> set ''201003'' \<and> CHR ''_'' \<notin> set ''201003''
   \<and> CHR ''/'' \<notin> set ''201406'' \<and> CHR ''_'' \<notin> set ''201406''
   \<and> composite_key ''a strategy'' ''an instrument'' [''201003'', ''201406'']
        = ''a strategy/an instrument/201003_201406''
   \<and> brokerOrder_new sample_collaborators
         [PStr ''a strategy/an instrument/201003_201406'', PList [PInt 6, PInt (- 6)]] Map.empty
       = brokerOrder_new sample_collaborators
           [PStr ''a strategy'', PStr ''an instrument'', PList [PStr ''201003'', PStr ''201406''],
            PList [PInt 6, PInt (- 6)]] Map.empty
   \<and> (\<exists>ord. brokerOrder_new sample_collaborators
           [PStr ''a strategy'', PStr ''an instrument'', PList [PStr ''201003'', PStr ''201406''],
            PList [PInt 6, PInt (- 6)]] Map.empty = Inr ord
          \<and> trade ord = [6, - 6] \<and> legs (tradeable_object ord) = [''201003'', ''201406''])
   \<and> length [''201003''] = 1
   \<and> composite_key ''a strategy'' ''an instrument'' [''201003'']
        = ''a strategy/an instrument/201003''
   \<and> brokerOrder_new sample_collaborators
         [PStr ''a strategy/an instrument/201003'', PInt 6] Map.empty
       = brokerOrder_new sample_collaborators
           [PStr ''a strategy'', PStr ''an instrument'', PStr ''201003'', PInt 6] Map.empty"
proof -
  have p: "from_key sample_collaborators = futuresContractStrategy_from_key"
    and c: "new_futuresContractStrategy sample_collaborators = futuresContractStrategy_init"
    by (simp_all add: sample_collaborators_def)
  have n: "CHR ''/'' \<notin> set ''a strategy''" "CHR ''/'' \<notin> set ''an instrument''"
    by simp_all
  have d: "[''201003'', ''201406''] \<noteq> []"
    "\<forall>d \<in> set [''201003'', ''201406'']. CHR ''/'' \<notin> set d \<and> CHR ''_'' \<notin> set d"
    by simp_all
  have key: "composite_key ''a strategy'' ''an instrument'' [''201003'', ''201406'']
        = ''a strategy/an instrument/201003_201406''"
    by (simp add: composite_key_def)
  have e: "\<exists>ord. brokerOrder_new sample_collaborators
           [PStr ''a strategy'', PStr ''an instrument'', PList [PStr ''201003'', PStr ''201406''],
            PList [PInt 6, PInt (- 6)]] Map.empty = Inr ord
          \<and> trade ord = [6, - 6] \<and> legs (tradeable_object ord) = [''201003'', ''201406'']"
    by (simp add: call_defs)
  from two_and_four_argument_forms_agree [OF p c n d, of "PList [PInt 6, PInt (- 6)]" Map.empty]
  have "brokerOrder_new sample_collaborators
         [PStr ''a strategy/an instrument/201003_201406'', PList [PInt 6, PInt (- 6)]] Map.empty
       = brokerOrder_new sample_collaborators
           [PStr ''a strategy'', PStr ''an instrument'', PList [PStr ''201003'', PStr ''201406''],
            PList [PInt 6, PInt (- 6)]] Map.empty"
    by (simp add: key)
  moreover
  have d1: "[''201003''] \<noteq> []"
    "\<forall>d \<in> set [''201003'']. CHR ''/'' \<notin> set d \<and> CHR ''_'' \<notin> set d"
    by simp_all
  have key1: "composite_key ''a strategy'' ''an instrument'' [''201003'']
        = ''a strategy/an instrument/201003''"
    by (simp add: composite_key_def)
  have one: "length [''201003''] = 1" and h: "hd [''201003''] = ''201003''"
    by simp_all
  from two_and_four_argument_forms_agree [OF p c n d1, of "PInt 6" Map.empty,
      unfolded key1 h] one
  have "brokerOrder_new sample_collaborators
         [PStr ''a strategy/an instrument/201003'', PInt 6] Map.empty
       = brokerOrder_new sample_collaborators
           [PStr ''a strategy'', PStr ''an instrument'', PStr ''201003'', PInt 6] Map.empty"
    by blast
  moreover
  have "CHR ''/'' \<notin> set ''201003'' \<and> CHR ''_'' \<notin> set ''201003''
          \<and> CHR ''/'' \<notin> set ''201406'' \<and> CHR ''_'' \<notin> set ''201406''"
    by simp
  ultimately show ?thesis using p c n d(1) key key1 e one by blast
qed

subsection \<open>The ambiguous price shape\<close>

text \<open>
  C6. Take a construction call that supplies a \<open>leg_filled_price\<close> other than the empty
  list together with a filled price that is neither a float nor \<^verbatim>\<open>None\<close>. No such call
  builds an order, whatever its positional arguments and whatever the collaborators do.
  The price resolver raises the ParseAmbiguityError on every trade and every mid, side
  and offside price, so the call fails with the ParseAmbiguityError as soon as it
  reaches the resolver, that is once its positional arguments are accepted and its trade,
  fill and filled price are normalized.
\<close>

theorem ambiguous_price_shape_is_rejected:
  assumes l: "kw ''leg_filled_price'' = Some l" "l \<noteq> PList []"
    and v: "kw ''filled_price'' = Some v" "\<not> is_float v" "v \<noteq> PNone"
  shows "brokerOrder_new env args kw \<noteq> Inr ord
       \<and> brokerOrder_init env args kw \<noteq> Inr ord
       \<and> calculate_prices_with_possible_legs env resolved_trade l mid side offside v
           = Inl ParseAmbiguityError
       \<and> (split_broker_order_args env args (kwarg kw ''fill'' PNone) v l
            (kwarg kw ''mid_price'' PNone) (kwarg kw ''side_price'' PNone)
            (kwarg kw ''offside_price'' PNone) = Inr raw
          \<longrightarrow> resolve_inputs_to_order env (ka_trade raw) (ka_fill raw) v = Inr normalized
          \<longrightarrow> brokerOrder_init env args kw = Inl ParseAmbiguityError
              \<and> (kw ''self'' = None \<longrightarrow> brokerOrder_new env args kw = Inl ParseAmbiguityError))"
proof -
  have kv: "kwarg kw ''filled_price'' PNone = v"
    and kl: "kwarg kw ''leg_filled_price'' (PList []) = l"
    using l(1) v(1) by (simp_all add: kwarg_def)
  note amb = calculate_prices_ambiguous [OF v(2,3) l(2)]
  have body: "brokerOrder_init env args kw \<noteq> Inr ord'" for ord'
  proof
    assume ok: "brokerOrder_init env args kw = Inr ord'"
    from brokerOrder_init_Inr [OF ok] obtain ka' where
      "from_broker_order_args_to_resolved_args env args
          (kwarg kw ''fill'' PNone) v l (kwarg kw ''mid_price'' PNone)
          (kwarg kw ''side_price'' PNone) (kwarg kw ''offside_price'' PNone) = Inr ka'"
      unfolding kv kl by blast
    from from_args_Inr [OF this] obtain raw' ka where
      r: "split_broker_order_args env args
          (kwarg kw ''fill'' PNone) v l (kwarg kw ''mid_price'' PNone)
          (kwarg kw ''side_price'' PNone) (kwarg kw ''offside_price'' PNone) = Inr raw'"
      and k: "resolve_inputs_to_order_with_key_arguments env raw' = Inr ka"
      by blast
    from resolve_Inr [OF k] split_Inr [OF r]
    have "calculate_prices_with_possible_legs env (ka_trade ka) l
            (ka_mid_price raw') (ka_side_price raw') (ka_offside_price raw') v
          = Inr (ka_leg_filled_price ka, ka_mid_price ka, ka_side_price ka, ka_offside_price ka)"
      by simp
    with amb show False by simp
  qed
  have call: "brokerOrder_new env args kw = brokerOrder_init env args kw" if "kw ''self'' = None"
    using that l(1) by (rule brokerOrder_new_explicit)
  have new: "brokerOrder_new env args kw \<noteq> Inr ord"
  proof
    assume "brokerOrder_new env args kw = Inr ord"
    from brokerOrder_new_Inr [OF this] l(1) have "brokerOrder_init env args kw = Inr ord"
      by simp
    with body show False by blast
  qed
  have reach: "brokerOrder_init env args kw = Inl ParseAmbiguityError"
    if s: "split_broker_order_args env args (kwarg kw ''fill'' PNone) v l
            (kwarg kw ''mid_price'' PNone) (kwarg kw ''side_price'' PNone)
            (kwarg kw ''offside_price'' PNone) = Inr raw"
      and n: "resolve_inputs_to_order env (ka_trade raw) (ka_fill raw) v = Inr normalized"
  proof -
    note r = split_Inr [OF s]
    obtain rt rf rp where t: "normalized = (rt, rf, rp)" by (cases normalized) auto
    have "resolve_inputs_to_order_with_key_arguments env raw = Inl ParseAmbiguityError"
      using r n t amb by (simp add: resolve_inputs_to_order_with_key_arguments_def)
    with s show ?thesis
      by (simp add: brokerOrder_init_def from_broker_order_args_to_resolved_args_def kv kl)
  qed
  from new body amb reach call show ?thesis by simp
qed

theorem ambiguous_price_shape_is_rejected_witness:
  "[''filled_price'' \<mapsto> PList [PFloat 101.5, PFloat 102.25],
    ''leg_filled_price'' \<mapsto> PList [PFloat 101.5, PFloat 102.25]] ''leg_filled_price''
      = Some (PList [PFloat 101.5, PFloat 102.25])
   \<and> PList [PFloat 101.5, PFloat 102.25] \<noteq> PList []
   \<and> [''filled_price'' \<mapsto> PList [PFloat 101.5, PFloat 102.25],
       ''leg_filled_price'' \<mapsto> PList [PFloat 101.5, PFloat 102.25]] ''filled_price''
      = Some (PList [PFloat 101.5, PFloat 102.25])
   \<and> \<not> is_float (PList [PFloat 101.5, PFloat 102.25])
   \<and> PList [PFloat 101.5, PFloat 102.25] \<noteq> PNone
   \<and> (\<exists>raw normalized.
        split_broker_order_args sample_collaborators
          [PStr ''a strategy/an instrument/201003_201406'', PList [PInt 6, PInt (- 6)]]
          PNone (PList [PFloat 101.5, PFloat 102.25]) (PList [PFloat 101.5, PFloat 102.25])
          PNone PNone PNone = Inr raw
      \<and> resolve_inputs_to_order sample_collaborators (ka_trade raw) (ka_fill raw)
          (PList [PFloat 101.5, PFloat 102.25]) = Inr normalized)
   \<and> brokerOrder_init sample_collaborators
        [PStr ''a strategy/an instrument/201003_201406'', PList [PInt 6, PInt (- 6)]]
        [''filled_price'' \<mapsto> PList [PFloat 101.5, PFloat 102.25],
         ''leg_filled_price'' \<mapsto> PList [PFloat 101.5, PFloat 102.25]]
      = Inl ParseAmbiguityError
   \<and> brokerOrder_new sample_collaborators
        [PStr ''a strategy/an instrument/201003_201406'', PList [PInt 6, PInt (- 6)]]
        [''filled_price'' \<mapsto> PList [PFloat 101.5, PFloat 102.25],
         ''leg_filled_price'' \<mapsto> PList [PFloat 101.5, PFloat 102.25]]
      = Inl ParseAmbiguityError"
proof -
  let ?kw = "[''filled_price'' \<mapsto> PList [PFloat 101.5, PFloat 102.25],
              ''leg_filled_price'' \<mapsto> PList [PFloat 101.5, PFloat 102.25]]"
  let ?args = "[PStr ''a strategy/an instrument/201003_201406'', PList [PInt 6, PInt (- 6)]]"
  have k: "kwarg ?kw ''fill'' PNone = PNone" "kwarg ?kw ''mid_price'' PNone = PNone"
    "kwarg ?kw ''side_price'' PNone = PNone" "kwarg ?kw ''offside_price'' PNone = PNone"
    by (simp_all add: kwarg_def)
  have l: "?kw ''leg_filled_price'' = Some (PList [PFloat 101.5, PFloat 102.25])"
    "PList [PFloat 101.5, PFloat 102.25] \<noteq> PList []"
    by simp_all
  have v: "?kw ''filled_price'' = Some (PList [PFloat 101.5, PFloat 102.25])"
    "\<not> is_float (PList [PFloat 101.5, PFloat 102.25])"
    "PList [PFloat 101.5, PFloat 102.25] \<noteq> PNone"
    by simp_all
  have self: "?kw ''self'' = None"
    by simp
  have "\<exists>raw. split_broker_order_args sample_collaborators ?args
        PNone (PList [PFloat 101.5, PFloat 102.25]) (PList [PFloat 101.5, PFloat 102.25])
        PNone PNone PNone = Inr raw
      \<and> (\<exists>normalized. resolve_inputs_to_order sample_collaborators (ka_trade raw) (ka_fill raw)
          (PList [PFloat 101.5, PFloat 102.25]) = Inr normalized)"
    by (simp add: construction_defs sample_leg_sign_def)
  then obtain raw normalized where
    s: "split_broker_order_args sample_collaborators ?args
        PNone (PList [PFloat 101.5, PFloat 102.25]) (PList [PFloat 101.5, PFloat 102.25])
        PNone PNone PNone = Inr raw"
    and n: "resolve_inputs_to_order sample_collaborators (ka_trade raw) (ka_fill raw)
          (PList [PFloat 101.5, PFloat 102.25]) = Inr normalized"
    by blast
  from s have s': "split_broker_order_args sample_collaborators ?args
        (kwarg ?kw ''fill'' PNone) (PList [PFloat 101.5, PFloat 102.25])
        (PList [PFloat 101.5, PFloat 102.25])
        (kwarg ?kw ''mid_price'' PNone) (kwarg ?kw ''side_price'' PNone)
        (kwarg ?kw ''offside_price'' PNone) = Inr raw"
    by (simp only: k)
  from ambiguous_price_shape_is_rejected [OF l v, of sample_collaborators ?args _ _ _ _ _ raw normalized]
    s' n self
  have "brokerOrder_init sample_collaborators ?args ?kw = Inl ParseAmbiguityError
      \<and> brokerOrder_new sample_collaborators ?args ?kw = Inl ParseAmbiguityError"
    by blast
  with l v s n show ?thesis by blast
qed

subsection \<open>Deserialization\<close>

text \<open>
  C8, as the code has it. Take a persisted dictionary that holds the ten keys which
  \<^verbatim>\<open>from_dict\<close> pops without a default, and a string under \<^verbatim>\<open>'order_type'\<close>. Then
  \<^verbatim>\<open>from_dict\<close> is the constructor called on the stored key and trade, with the
  stored entries as keyword arguments, a \<^verbatim>\<open>None\<close> stored under \<^verbatim>\<open>'order_id'\<close>,
  \<^verbatim>\<open>'parent'\<close> or \<^verbatim>\<open>'children'\<close> replaced by the sentinel, and the order type tag
  rebuilt from the stored string. Whenever that construction succeeds, the order has the
  sentinel where \<^verbatim>\<open>None\<close> was stored and the rebuilt tag.
\<close>

theorem from_dict_substitutes_sentinels:
  assumes "d ''trade'' = Some t" and "d ''key'' = Some k" and "d ''fill'' = Some f"
    and "d ''filled_price'' = Some fp" and "d ''fill_datetime'' = Some fd"
    and "d ''locked'' = Some l" and "d ''order_id'' = Some oid" and "d ''parent'' = Some par"
    and "d ''children'' = Some ch" and "d ''active'' = Some act"
    and "d ''order_type'' = Some (PStr s)"
  shows "from_dict env d
           = brokerOrder_new env [k, t]
               (d(''order_id'' \<mapsto> (if oid = PNone then no_order_id else oid),
                  ''parent'' \<mapsto> (if par = PNone then no_parent else par),
                  ''children'' \<mapsto> (if ch = PNone then no_children else ch),
                  ''order_type'' \<mapsto> brokerOrderType (PStr s)))
       \<and> (from_dict env d = Inr ord \<longrightarrow>
            order_id ord = (if oid = PNone then no_order_id else oid)
          \<and> parent ord = (if par = PNone then no_parent else par)
          \<and> children ord = (if ch = PNone then no_children else ch)
          \<and> order_type ord = brokerOrderType (PStr s))"
proof -
  let ?kw = "d(''order_id'' \<mapsto> none_to_object oid no_order_id,
               ''parent'' \<mapsto> none_to_object par no_parent,
               ''children'' \<mapsto> none_to_object ch no_children,
               ''order_type'' \<mapsto> brokerOrderType (PStr s))"
  have e: "from_dict env d = brokerOrder_new env [k, t] ?kw"
    apply (simp add: from_dict_def pop_def pop_default_def assms del: fun_upd_None_if_notin_dom)
    apply (rule brokerOrder_new_cong)
    apply (auto simp: parameter_names_def keyword_names_def assms
        simp del: fun_upd_None_if_notin_dom)
    done
  have "order_id ord = none_to_object oid no_order_id
          \<and> parent ord = none_to_object par no_parent
          \<and> children ord = none_to_object ch no_children
          \<and> order_type ord = brokerOrderType (PStr s)"
    if "brokerOrder_new env [k, t] ?kw = Inr ord"
    using brokerOrder_init_Inr [OF conjunct2 [OF brokerOrder_new_Inr [OF that]]]
    by (auto simp: kwarg_def split: option.splits)
  with e show ?thesis
    unfolding none_to_object_def by simp
qed

theorem from_dict_substitutes_sentinels_witness:
  "\<exists>ord. from_dict sample_collaborators example_order_as_dict = Inr ord
     \<and> example_order_as_dict ''order_id'' = Some PNone
     \<and> example_order_as_dict ''parent'' = Some PNone
     \<and> example_order_as_dict ''children'' = Some PNone
     \<and> order_id ord = no_order_id \<and> parent ord = no_parent \<and> children ord = no_children
     \<and> order_type ord = brokerOrderType (PStr ''limit'')
     \<and> trade ord = [10] \<and> limit_price ord = Inr (PFloat 101.5)"
proof -
  have "\<exists>ord. from_dict sample_collaborators example_order_as_dict = Inr ord
          \<and> trade ord = [10] \<and> limit_price ord = Inr (PFloat 101.5)"
    by (simp add: from_dict_def pop_def pop_default_def example_order_as_dict_def
        call_defs limit_price_def getitem_def del: fun_upd_None_if_notin_dom)
  then obtain ord where ok: "from_dict sample_collaborators example_order_as_dict = Inr ord"
    and v: "trade ord = [10]" "limit_price ord = Inr (PFloat 101.5)"
    by blast
  have d: "example_order_as_dict ''trade'' = Some (PList [PInt 10])"
    "example_order_as_dict ''key'' = Some (PStr ''a strategy/an instrument/201003'')"
    "example_order_as_dict ''fill'' = Some (PList [PInt 0])"
    "example_order_as_dict ''filled_price'' = Some PNone"
    "example_order_as_dict ''fill_datetime'' = Some PNone"
    "example_order_as_dict ''locked'' = Some (PBool False)"
    "example_order_as_dict ''order_id'' = Some PNone"
    "example_order_as_dict ''parent'' = Some PNone"
    "example_order_as_dict ''children'' = Some PNone"
    "example_order_as_dict ''active'' = Some (PBool True)"
    "example_order_as_dict ''order_type'' = Some (PStr ''limit'')"
    by (simp_all add: example_order_as_dict_def)
  from from_dict_substitutes_sentinels [OF d, of sample_collaborators ord] ok
  have "order_id ord = no_order_id \<and> parent ord = no_parent \<and> children ord = no_children
          \<and> order_type ord = brokerOrderType (PStr ''limit'')"
    by simp
  with ok v d show ?thesis by blast
qed

text \<open>
  C8, as stated for a dictionary from which the key itself is absent, fails: the
  \<^verbatim>\<open>pop\<close> of \<^verbatim>\<open>'order_id'\<close>, \<^verbatim>\<open>'parent'\<close> or \<^verbatim>\<open>'children'\<close> has no default and
  raises KeyError.
\<close>

theorem from_dict_missing_key_counterexample:
  "(example_order_as_dict(''order_id'' := None)) ''order_id'' = None
   \<and> from_dict sample_collaborators (example_order_as_dict(''order_id'' := None))
       = Inl (KeyError ''order_id'')
   \<and> (example_order_as_dict(''parent'' := None)) ''parent'' = None
   \<and> from_dict sample_collaborators (example_order_as_dict(''parent'' := None))
       = Inl (KeyError ''parent'')
   \<and> (example_order_as_dict(''children'' := None)) ''children'' = None
   \<and> from_dict sample_collaborators (example_order_as_dict(''children'' := None))
       = Inl (KeyError ''children'')"
  by (simp add: from_dict_def pop_def example_order_as_dict_def del: fun_upd_None_if_notin_dom)

end
